theory Spec2Isabelle
  imports Complex_Main
begin

section \<open>Numbers, exceptions and bars\<close>

text \<open>
  Python floats are modelled as real numbers: finite values, exact arithmetic. A value that the
  source tests with \<open>np.isnan\<close> is a \<open>real option\<close>, \<open>None\<close> standing for NaN.
  Bar counts, periods and windows are natural numbers.
\<close>

text \<open>
  Python's \<open>round(x, n)\<close>: the nearest multiple of \<open>10\<^sup>-\<^sup>n\<close>, ties going to the even
  neighbour.
\<close>

definition round_half_even :: "real \<Rightarrow> int" where
  "round_half_even y =
     (let f = \<lfloor>y\<rfloor>; d = y - of_int f
      in if d < 1 / 2 then f
         else if 1 / 2 < d then f + 1
         else if even f then f else f + 1)"

definition py_round :: "real \<Rightarrow> nat \<Rightarrow> real" where
  "py_round x n = of_int (round_half_even (x * 10 ^ n)) / 10 ^ n"

datatype py_exn = TypeError | IndexError | ValueError | LinAlgError

text \<open>One OHLCV sample; a data frame is the list of its rows, oldest first.\<close>

record bar =
  time :: int
  open_price :: real
  high :: real
  low :: real
  close :: real
  volume :: int

text \<open>\<open>df.tail(n)\<close>: the last \<open>n\<close> rows, all of them when there are fewer.\<close>

definition tail :: "nat \<Rightarrow> 'a list \<Rightarrow> 'a list" where
  "tail n xs = drop (length xs - n) xs"

text \<open>\<open>a[-1]\<close> on a numpy array or \<open>.iloc[-1]\<close> on a series.\<close>

definition last_item :: "'a list \<Rightarrow> py_exn + 'a" where
  "last_item xs = (if xs = [] then Inl IndexError else Inr (last xs))"

section \<open>Channel results (strategies.py)\<close>

datatype channel_type = CHANNEL_UP | CHANNEL_DOWN | CHANNEL_SIDEWAYS | CHANNEL_TRANSITION

text \<open>
  The strings the strategies store under the key \<open>sma_cross\<close>: the three labels of
  \<open>_calc_sma_cross\<close> (bullish alignment, bearish alignment, insufficient data), the middle-band
  side of the Bollinger variant, the proximity of the Donchian variant, and the pattern names
  and the insufficient-pivots label of the trendline variant.
\<close>

datatype cross_label =
    SmaBullish | SmaBearish | SmaInsufficient
  | AboveMiddle | BelowMiddle
  | NearUpper | NearLower | InsideChannel
  | PivotsInsufficient
  | PatternAscending | PatternDescending | PatternConverging | PatternExpanding | PatternUnclear

text \<open>The \<open>details\<close> dictionary of each variant; a NaN-capable entry is an option.\<close>

datatype details =
    RegressionDetails (d_slope: real) (d_slope_pct: real) (d_r_squared: real) (d_adx: real)
      (d_sma_short_val: "real option") (d_sma_long_val: "real option") (d_band_width: real)
  | BollingerDetails (d_bandwidth: real) (d_pct_b: real) (d_ma_slope: real)
      (d_bb_adx: real) (d_bw_narrow: bool)
  | DonchianDetails (d_upper_slope: real) (d_lower_slope: real) (d_channel_width: real)
      (d_dc_adx: real) (d_dc_period: nat)
  | PivotNote (d_note_high_pivots: nat) (d_note_low_pivots: nat)
  | TrendlineDetails (d_high_slope: real) (d_low_slope: real) (d_high_pivots: nat)
      (d_low_pivots: nat) (d_pattern: cross_label) (d_tl_adx: real)

datatype strategy_name = RegressionName | BollingerName | DonchianName | TrendlineName

record channel_result =
  strategy_name :: strategy_name
  channel_type :: channel_type
  current_price :: real
  upper_band :: real
  lower_band :: real
  center :: real
  position_pct :: real
  sma_cross :: cross_label
  details :: details

text \<open>
  What \<open>analyze\<close> returns: either the dictionary with the single key \<open>error\<close> (its message
  names the bars needed and the bars given), or a full channel result.
\<close>

datatype analysis = ErrorResult nat nat | ChannelResult channel_result

definition has_error :: "analysis \<Rightarrow> bool" where
  "has_error r = (case r of ErrorResult _ _ \<Rightarrow> True | ChannelResult _ \<Rightarrow> False)"

subsection \<open>BaseChannelStrategy\<close>

definition calc_position_pct :: "real \<Rightarrow> real \<Rightarrow> real \<Rightarrow> real" where
  "calc_position_pct price upper lower =
     (let width = upper - lower
      in if 0 < width
         then (let pct = ((price - lower) / width) * 100
               in py_round (max 0 (min 100 pct)) 1)
         else 50)"

section \<open>Consensus and summary (channel_analyzer.py)\<close>

text \<open>The formatted label strings, with the numbers they interpolate.\<close>

datatype consensus_label =
    NoValidData
  | AllBullish nat nat
  | AllBearish nat nat
  | LeanBullish nat nat
  | LeanBearish nat nat
  | Divergent nat nat int

record verdict =
  v_label :: consensus_label
  v_up :: nat
  v_down :: nat
  v_total :: nat

definition result_channel_type :: "analysis \<Rightarrow> channel_type option" where
  "result_channel_type r =
     (case r of ErrorResult _ _ \<Rightarrow> None | ChannelResult c \<Rightarrow> Some (channel_type c))"

definition consensus :: "analysis list \<Rightarrow> verdict" where
  "consensus strategy_results =
     (let valid = filter (\<lambda>r. \<not> has_error r) strategy_results
      in if valid = []
         then \<lparr>v_label = NoValidData, v_up = 0, v_down = 0, v_total = 0\<rparr>
         else
           (let up = length (filter (\<lambda>r. result_channel_type r = Some CHANNEL_UP) valid);
                down = length (filter (\<lambda>r. result_channel_type r = Some CHANNEL_DOWN) valid);
                total = length valid;
                label =
                  (if up = total then AllBullish up total
                   else if down = total then AllBearish down total
                   else if down < up \<and> real total / 2 \<le> real up then LeanBullish up total
                   else if up < down \<and> real total / 2 \<le> real down then LeanBearish down total
                   else Divergent up down (int total - int up - int down))
            in \<lparr>v_label = label, v_up = up, v_down = down, v_total = total\<rparr>))"

text \<open>
  A time-frame result is a dictionary; the keys read with \<open>.get\<close> and a default are options
  here. The time-frame names are compared as UTF-8 byte strings.
\<close>

datatype tf_error = FetchFailed | ResampleInsufficient

record timeframe =
  tf_name :: string
  tf_label :: string
  tf_error :: "tf_error option"
  tf_bars_total :: nat
  tf_strategies :: "analysis list"
  tf_consensus :: "verdict option"

definition name_1h :: string where "name_1h = ''1H''"
definition name_4h :: string where "name_4h = ''4H''"
definition name_daily :: string where
  "name_daily = [CHR 0xE6, CHR 0x97, CHR 0xA5, CHR 0xE7, CHR 0xBA, CHR 0xBF]"
definition name_weekly :: string where
  "name_weekly = [CHR 0xE5, CHR 0x91, CHR 0xA8, CHR 0xE7, CHR 0xBA, CHR 0xBF]"

datatype conclusion =
    SummaryNoData
  | StrongBullish
  | StrongBearish
  | OverallBullish nat nat
  | OverallBearish nat nat
  | DirectionsDiverge

datatype detail =
    TimeframeLine string "consensus_label option"
  | WarnLongBullShortPullback
  | WarnLongBearShortRebound

record summary =
  s_conclusion :: conclusion
  s_details :: "detail list"

definition con_up :: "timeframe \<Rightarrow> nat" where
  "con_up tf = (case tf_consensus tf of None \<Rightarrow> 0 | Some v \<Rightarrow> v_up v)"

definition con_down :: "timeframe \<Rightarrow> nat" where
  "con_down tf = (case tf_consensus tf of None \<Rightarrow> 0 | Some v \<Rightarrow> v_down v)"

definition leans_bullish :: "timeframe \<Rightarrow> bool" where
  "leans_bullish tf = (con_down tf < con_up tf)"

definition leans_bearish :: "timeframe \<Rightarrow> bool" where
  "leans_bearish tf = (con_up tf < con_down tf)"

text \<open>The counting loop of \<open>_generate_summary\<close>, with its two counters.\<close>

fun count_leaning :: "timeframe list \<Rightarrow> nat \<times> nat \<Rightarrow> nat \<times> nat" where
  "count_leaning [] acc = acc"
| "count_leaning (tf # tfs) (consensus_up, consensus_down) =
     (if con_down tf < con_up tf then count_leaning tfs (consensus_up + 1, consensus_down)
      else if con_up tf < con_down tf then count_leaning tfs (consensus_up, consensus_down + 1)
      else count_leaning tfs (consensus_up, consensus_down))"

definition generate_summary :: "timeframe list \<Rightarrow> summary" where
  "generate_summary timeframes =
     (let valid_tfs = filter (\<lambda>tf. tf_error tf = None) timeframes
      in if valid_tfs = []
         then \<lparr>s_conclusion = SummaryNoData, s_details = []\<rparr>
         else
           (let (consensus_up, consensus_down) = count_leaning valid_tfs (0, 0);
                total = length valid_tfs;
                conclusion =
                  (if consensus_up = total then StrongBullish
                   else if consensus_down = total then StrongBearish
                   else if consensus_down < consensus_up then OverallBullish consensus_up total
                   else if consensus_up < consensus_down then OverallBearish consensus_down total
                   else DirectionsDiverge);
                details1 =
                  map (\<lambda>tf. TimeframeLine (tf_name tf) (map_option v_label (tf_consensus tf)))
                    valid_tfs;
                long_tfs = filter (\<lambda>tf. tf_name tf \<in> {name_daily, name_weekly}) valid_tfs;
                short_tfs = filter (\<lambda>tf. tf_name tf \<in> {name_1h, name_4h}) valid_tfs;
                long_bullish = list_ex (\<lambda>tf. con_down tf < con_up tf) long_tfs;
                short_bearish = list_ex (\<lambda>tf. con_up tf < con_down tf) short_tfs;
                long_bearish = list_ex (\<lambda>tf. con_up tf < con_down tf) long_tfs;
                short_bullish = list_ex (\<lambda>tf. con_down tf < con_up tf) short_tfs;
                details2 =
                  (if long_bullish \<and> short_bearish then details1 @ [WarnLongBullShortPullback]
                   else if long_bearish \<and> short_bullish then details1 @ [WarnLongBearShortRebound]
                   else details1)
            in \<lparr>s_conclusion = conclusion, s_details = details2\<rparr>))"

subsection \<open>Notions used to state the consensus properties\<close>

definition valid_results :: "analysis list \<Rightarrow> analysis list" where
  "valid_results rs = filter (\<lambda>r. \<not> has_error r) rs"

definition count_type :: "channel_type \<Rightarrow> analysis list \<Rightarrow> nat" where
  "count_type t rs = length (filter (\<lambda>r. result_channel_type r = Some t) (valid_results rs))"

fun is_all_bullish :: "consensus_label \<Rightarrow> bool" where
  "is_all_bullish (AllBullish _ _) = True"
| "is_all_bullish _ = False"

fun is_all_bearish :: "consensus_label \<Rightarrow> bool" where
  "is_all_bearish (AllBearish _ _) = True"
| "is_all_bearish _ = False"

fun is_lean_bullish :: "consensus_label \<Rightarrow> bool" where
  "is_lean_bullish (LeanBullish _ _) = True"
| "is_lean_bullish _ = False"

fun is_lean_bearish :: "consensus_label \<Rightarrow> bool" where
  "is_lean_bearish (LeanBearish _ _) = True"
| "is_lean_bearish _ = False"

text \<open>A sample result of a strategy that reports an upward channel.\<close>

definition up_result :: analysis where
  "up_result = ChannelResult \<lparr>strategy_name = DonchianName, channel_type = CHANNEL_UP,
     current_price = 2, upper_band = 3, lower_band = 1, center = 2, position_pct = 50,
     sma_cross = InsideChannel, details = DonchianDetails 1 1 1 30 20\<rparr>"

subsection \<open>Notions used to state the summary properties\<close>

definition valid_tfs :: "timeframe list \<Rightarrow> timeframe list" where
  "valid_tfs timeframes = filter (\<lambda>tf. tf_error tf = None) timeframes"

definition long_horizon :: "timeframe \<Rightarrow> bool" where
  "long_horizon tf = (tf_name tf = name_daily \<or> tf_name tf = name_weekly)"

definition short_horizon :: "timeframe \<Rightarrow> bool" where
  "short_horizon tf = (tf_name tf = name_1h \<or> tf_name tf = name_4h)"

definition bullish_count :: "timeframe list \<Rightarrow> nat" where
  "bullish_count tfs = length (filter leans_bullish (valid_tfs tfs))"

definition bearish_count :: "timeframe list \<Rightarrow> nat" where
  "bearish_count tfs = length (filter leans_bearish (valid_tfs tfs))"

fun is_overall_bullish :: "conclusion \<Rightarrow> bool" where
  "is_overall_bullish (OverallBullish _ _) = True"
| "is_overall_bullish _ = False"

fun is_overall_bearish :: "conclusion \<Rightarrow> bool" where
  "is_overall_bearish (OverallBearish _ _) = True"
| "is_overall_bearish _ = False"

definition long_bull_short_bear :: "timeframe list \<Rightarrow> bool" where
  "long_bull_short_bear tfs =
     ((\<exists>tf \<in> set (valid_tfs tfs). long_horizon tf \<and> leans_bullish tf)
      \<and> (\<exists>tf \<in> set (valid_tfs tfs). short_horizon tf \<and> leans_bearish tf))"

definition long_bear_short_bull :: "timeframe list \<Rightarrow> bool" where
  "long_bear_short_bull tfs =
     ((\<exists>tf \<in> set (valid_tfs tfs). long_horizon tf \<and> leans_bearish tf)
      \<and> (\<exists>tf \<in> set (valid_tfs tfs). short_horizon tf \<and> leans_bullish tf))"

definition mk_tf :: "string \<Rightarrow> nat \<Rightarrow> nat \<Rightarrow> timeframe" where
  "mk_tf n u d = \<lparr>tf_name = n, tf_label = [], tf_error = None, tf_bars_total = 100,
     tf_strategies = [],
     tf_consensus = Some \<lparr>v_label = Divergent u d 0, v_up = u, v_down = d, v_total = u + d\<rparr>\<rparr>"

text \<open>Sample reports.\<close>

definition four_bullish :: "timeframe list" where
  "four_bullish = [mk_tf name_1h 3 1, mk_tf name_4h 2 0, mk_tf name_daily 4 0, mk_tf name_weekly 2 1]"

definition both_conflicts :: "timeframe list" where
  "both_conflicts = [mk_tf name_1h 0 1, mk_tf name_4h 1 0, mk_tf name_daily 1 0, mk_tf name_weekly 0 1]"

definition failed_tf :: timeframe where
  "failed_tf = \<lparr>tf_name = name_4h, tf_label = [], tf_error = Some ResampleInsufficient,
     tf_bars_total = 0, tf_strategies = [], tf_consensus = None\<rparr>"

definition rebound_only :: "timeframe list" where
  "rebound_only = [mk_tf name_1h 2 1, mk_tf name_daily 0 3]"

section \<open>The strategies (strategies.py)\<close>

subsection \<open>Library functions the strategies call\<close>

text \<open>
  The indicators of the \<open>ta\<close> package are not part of the repository; what a strategy reads
  from them is a parameter of the model. \<open>ta_adx\<close> is the last value of the 14-period ADX
  series, \<open>None\<close> when that value is NaN or when the computation raises. The band records hold
  the last values of the band series and the series themselves after \<open>dropna()\<close>.
\<close>

record bollinger_bands =
  bollinger_hband :: real
  bollinger_lband :: real
  bollinger_mavg :: real
  bollinger_wband :: real
  bollinger_pband :: "real option"
  bollinger_mavg_series :: "real list"
  bollinger_wband_series :: "real list"

record donchian_channel =
  donchian_channel_hband :: real
  donchian_channel_lband :: real
  donchian_channel_mband :: real
  donchian_channel_wband :: "real option"
  donchian_channel_hband_series :: "real list"
  donchian_channel_lband_series :: "real list"

record ta_library =
  ta_adx :: "bar list \<Rightarrow> real option"
  ta_bollinger :: "real list \<Rightarrow> nat \<Rightarrow> real \<Rightarrow> bollinger_bands"
  ta_donchian :: "bar list \<Rightarrow> nat \<Rightarrow> donchian_channel"

definition mean :: "real list \<Rightarrow> real" where
  "mean xs = sum_list xs / real (length xs)"

text \<open>\<open>np.std\<close>: the population standard deviation.\<close>

definition np_std :: "real list \<Rightarrow> real" where
  "np_std xs = sqrt (mean (map (\<lambda>x. (x - mean xs)\<^sup>2) xs))"

text \<open>\<open>np.arange(n)\<close>.\<close>

definition arange :: "nat \<Rightarrow> real list" where
  "arange n = map real [0..<n]"

text \<open>
  \<open>np.polyfit(x, y, 1)\<close>: the least-squares line, as (slope, intercept). numpy rejects an
  empty \<open>x\<close> and vectors of different lengths with a TypeError. When all abscissae coincide
  the system is rank deficient: numpy's column scaling divides by a zero norm and the solver
  fails on the resulting NaN, which is the LinAlgError here. The coefficients are the exact
  ones; numpy returns them up to floating-point rounding, so on a series that is exactly
  linear its residuals are small but need not be zero.
\<close>

definition polyfit :: "real list \<Rightarrow> real list \<Rightarrow> py_exn + (real \<times> real)" where
  "polyfit xs ys =
     (if xs = [] \<or> length xs \<noteq> length ys then Inl TypeError
      else
        (let mx = mean xs; my = mean ys;
             sxx = (\<Sum>x\<leftarrow>xs. (x - mx)\<^sup>2);
             sxy = (\<Sum>(x, y)\<leftarrow>zip xs ys. (x - mx) * (y - my))
         in if sxx = 0 then Inl LinAlgError
            else Inr (sxy / sxx, my - (sxy / sxx) * mx)))"

definition polyval :: "real \<times> real \<Rightarrow> real \<Rightarrow> real" where
  "polyval coeffs x = fst coeffs * x + snd coeffs"

text \<open>\<open>np.max\<close> and \<open>np.min\<close> raise a ValueError on an empty array.\<close>

definition np_max :: "real list \<Rightarrow> py_exn + real" where
  "np_max xs = (case xs of [] \<Rightarrow> Inl ValueError | y # ys \<Rightarrow> Inr (fold max ys y))"

definition np_min :: "real list \<Rightarrow> py_exn + real" where
  "np_min xs = (case xs of [] \<Rightarrow> Inl ValueError | y # ys \<Rightarrow> Inr (fold min ys y))"

text \<open>The median of a pandas series.\<close>

definition median :: "real list \<Rightarrow> real" where
  "median xs =
     (let s = sort xs; n = length s
      in if odd n then s ! (n div 2) else (s ! (n div 2 - 1) + s ! (n div 2)) / 2)"

text \<open>
  \<open>series.rolling(window=w).mean().iloc[-1]\<close>: NaN (\<open>None\<close>) while fewer than \<open>w\<close> values
  are available; \<open>.iloc[-1]\<close> raises on an empty series.
\<close>

definition rolling_mean_last :: "nat \<Rightarrow> real list \<Rightarrow> py_exn + real option" where
  "rolling_mean_last w xs =
     (if xs = [] then Inl IndexError
      else if w = 0 \<or> length xs < w then Inr None
      else Inr (Some (mean (tail w xs))))"

text \<open>The slice \<open>values[i:j]\<close> for \<open>0 \<le> i\<close>.\<close>

definition slice :: "nat \<Rightarrow> nat \<Rightarrow> 'a list \<Rightarrow> 'a list" where
  "slice i j xs = take (j - i) (drop i xs)"

subsection \<open>BaseChannelStrategy, continued\<close>

definition calc_adx :: "(bar list \<Rightarrow> real option) \<Rightarrow> bar list \<Rightarrow> nat \<Rightarrow> real" where
  "calc_adx adx_indicator df lookback =
     (let adx_data = tail (lookback + 20) df
      in if length adx_data < 16 then 0
         else (case adx_indicator adx_data of None \<Rightarrow> 0 | Some val \<Rightarrow> py_round val 1))"

definition calc_sma_cross ::
  "bar list \<Rightarrow> nat \<Rightarrow> nat \<Rightarrow> py_exn + (real option \<times> real option \<times> cross_label)" where
  "calc_sma_cross df short long =
     (case rolling_mean_last short (map close df) of
        Inl e \<Rightarrow> Inl e
      | Inr sma_s \<Rightarrow>
          (case rolling_mean_last long (map close df) of
             Inl e \<Rightarrow> Inl e
           | Inr sma_l \<Rightarrow>
               (case (sma_s, sma_l) of
                  (Some s, Some l) \<Rightarrow>
                    Inr (Some (py_round s 2), Some (py_round l 2),
                         if l < s then SmaBullish else SmaBearish)
                | _ \<Rightarrow> Inr (None, None, SmaInsufficient))))"

text \<open>The keyword arguments of \<open>analyze\<close>, each read with \<open>kwargs.get\<close> and a default.\<close>

record analyze_kwargs =
  kw_sma_short :: "nat option"
  kw_sma_long :: "nat option"
  kw_bb_period :: "nat option"
  kw_bb_std :: "real option"
  kw_dc_period :: "nat option"
  kw_pivot_window :: "nat option"

definition kwargs_get :: "'a option \<Rightarrow> 'a \<Rightarrow> 'a" where
  "kwargs_get v d = (case v of None \<Rightarrow> d | Some x \<Rightarrow> x)"

subsection \<open>LinearRegressionStrategy\<close>

text \<open>
  R-squared as \<open>analyze\<close> computes it, in exact arithmetic. The floating-point value
  differs by rounding: near 1 on an exactly linear window rather than 1, and not
  necessarily 0 on a constant one. The classification property compares the computed value
  with the threshold and does not rest on such an exact value.
\<close>

definition r_squared_of :: "real list \<Rightarrow> real list \<Rightarrow> real" where
  "r_squared_of closes regression_line =
     (let ss_res = (\<Sum>(c, r)\<leftarrow>zip closes regression_line. (c - r)\<^sup>2);
          ss_tot = (\<Sum>c\<leftarrow>closes. (c - mean closes)\<^sup>2)
      in if 0 < ss_tot then 1 - ss_res / ss_tot else 0)"

definition regression_channel_type ::
  "real \<Rightarrow> real \<Rightarrow> real \<Rightarrow> real \<Rightarrow> real \<Rightarrow> cross_label \<Rightarrow> channel_type" where
  "regression_channel_type r2_threshold adx_threshold r_squared adx slope cross =
     (let ctype =
            (if r2_threshold \<le> r_squared \<and> adx_threshold \<le> adx
               then (if 0 < slope then CHANNEL_UP else CHANNEL_DOWN)
             else if r2_threshold \<le> r_squared then CHANNEL_TRANSITION
             else CHANNEL_SIDEWAYS)
      in if cross = SmaBullish \<and> ctype = CHANNEL_DOWN then CHANNEL_TRANSITION
         else if cross = SmaBearish \<and> ctype = CHANNEL_UP then CHANNEL_TRANSITION
         else ctype)"

definition regression_analyze ::
  "(bar list \<Rightarrow> real option) \<Rightarrow> real \<Rightarrow> real \<Rightarrow> bar list \<Rightarrow> nat \<Rightarrow> analyze_kwargs
     \<Rightarrow> py_exn + analysis" where
  "regression_analyze adx_indicator adx_threshold r2_threshold df lookback kwargs =
     (let sma_short = kwargs_get (kw_sma_short kwargs) 20;
          sma_long = kwargs_get (kw_sma_long kwargs) 60;
          min_bars = max lookback (sma_long + 10)
      in if length df < min_bars then Inr (ErrorResult min_bars (length df))
         else
           (let data = tail lookback df;
                closes = map close data;
                x = arange (length closes)
            in case polyfit x closes of
                 Inl e \<Rightarrow> Inl e
               | Inr coeffs \<Rightarrow>
                   (let slope = fst coeffs;
                        regression_line = map (polyval coeffs) x;
                        r_squared = r_squared_of closes regression_line;
                        residuals = map (\<lambda>(c, r). c - r) (zip closes regression_line);
                        std_dev = np_std residuals;
                        mid = last regression_line;
                        upper = mid + 1.5 * std_dev;
                        lower = mid - 1.5 * std_dev;
                        adx = calc_adx adx_indicator df lookback
                    in case calc_sma_cross df sma_short sma_long of
                         Inl e \<Rightarrow> Inl e
                       | Inr (sma_s, sma_l, cross) \<Rightarrow>
                           (let price = last closes;
                                slope_pct =
                                  (if 0 < price then (slope / price) * 100
                                   else 0)
                            in Inr (ChannelResult
                                 \<lparr>strategy_name = RegressionName,
                                  channel_type =
                                    regression_channel_type r2_threshold adx_threshold
                                      r_squared adx slope cross,
                                  current_price = py_round price 2,
                                  upper_band = py_round upper 2,
                                  lower_band = py_round lower 2,
                                  center = py_round mid 2,
                                  position_pct = calc_position_pct price upper lower,
                                  sma_cross = cross,
                                  details =
                                    RegressionDetails (py_round slope 4) (py_round slope_pct 4)
                                      (py_round r_squared 4) adx sma_s sma_l
                                      (py_round (std_dev * 3) 2)\<rparr>)))))"

subsection \<open>BollingerBandStrategy\<close>

text \<open>The slope of a fitted line through a series, 0 when it has fewer than ten points.\<close>

definition series_slope :: "real list \<Rightarrow> py_exn + real" where
  "series_slope vals =
     (if 10 \<le> length vals
      then (case polyfit (arange (length vals)) vals of
              Inl e \<Rightarrow> Inl e
            | Inr coeffs \<Rightarrow> Inr (fst coeffs))
      else Inr 0)"

definition bollinger_analyze ::
  "ta_library \<Rightarrow> nat \<Rightarrow> real \<Rightarrow> bar list \<Rightarrow> nat \<Rightarrow> analyze_kwargs \<Rightarrow> py_exn + analysis" where
  "bollinger_analyze ta self_bb_period self_bb_std df lookback kwargs =
     (let bb_period = kwargs_get (kw_bb_period kwargs) self_bb_period;
          bb_std = kwargs_get (kw_bb_std kwargs) self_bb_std
      in if length df < bb_period + 10
         then Inr (ErrorResult (bb_period + 10) (length df))
         else
           (let bb = ta_bollinger ta (map close df) bb_period bb_std;
                upper = bollinger_hband bb;
                lower = bollinger_lband bb;
                middle = bollinger_mavg bb;
                bandwidth = bollinger_wband bb;
                pct_b = bollinger_pband bb
            in case last_item (map close df) of
                 Inl e \<Rightarrow> Inl e
               | Inr price \<Rightarrow>
                   (case series_slope (tail lookback (bollinger_mavg_series bb)) of
                      Inl e \<Rightarrow> Inl e
                    | Inr ma_slope \<Rightarrow>
                        (let adx = calc_adx (ta_adx ta) df lookback;
                             bw_series = tail lookback (bollinger_wband_series bb);
                             bw_median = (if 0 < length bw_series then median bw_series
                                          else bandwidth);
                             bw_is_narrow = (bandwidth < bw_median * 0.7);
                             ctype =
                               (if bw_is_narrow \<and> adx < 20 then CHANNEL_SIDEWAYS
                                else if 0 < ma_slope \<and> 20 \<le> adx then CHANNEL_UP
                                else if ma_slope < 0 \<and> 20 \<le> adx then CHANNEL_DOWN
                                else if 0 < \<bar>ma_slope\<bar> \<and> adx < 20 then CHANNEL_TRANSITION
                                else CHANNEL_SIDEWAYS)
                         in Inr (ChannelResult
                              \<lparr>strategy_name = BollingerName,
                               channel_type = ctype,
                               current_price = py_round price 2,
                               upper_band = py_round upper 2,
                               lower_band = py_round lower 2,
                               center = py_round middle 2,
                               position_pct = calc_position_pct price upper lower,
                               sma_cross = (if middle < price then AboveMiddle else BelowMiddle),
                               details =
                                 BollingerDetails (py_round bandwidth 4)
                                   (case pct_b of None \<Rightarrow> 0 | Some p \<Rightarrow> py_round p 4)
                                   (py_round ma_slope 4) adx bw_is_narrow\<rparr>)))))"

subsection \<open>DonchianChannelStrategy\<close>

definition donchian_analyze ::
  "ta_library \<Rightarrow> nat \<Rightarrow> bar list \<Rightarrow> nat \<Rightarrow> analyze_kwargs \<Rightarrow> py_exn + analysis" where
  "donchian_analyze ta self_dc_period df lookback kwargs =
     (let dc_period = kwargs_get (kw_dc_period kwargs) self_dc_period
      in if length df < dc_period + 10
         then Inr (ErrorResult (dc_period + 10) (length df))
         else
           (let dc = ta_donchian ta df dc_period;
                upper = donchian_channel_hband dc;
                lower = donchian_channel_lband dc;
                middle = donchian_channel_mband dc;
                width = donchian_channel_wband dc
            in case last_item (map close df) of
                 Inl e \<Rightarrow> Inl e
               | Inr price \<Rightarrow>
                   (case series_slope (tail lookback (donchian_channel_hband_series dc)) of
                      Inl e \<Rightarrow> Inl e
                    | Inr upper_slope \<Rightarrow>
                        (case series_slope
                                (tail lookback (donchian_channel_lband_series dc)) of
                           Inl e \<Rightarrow> Inl e
                         | Inr lower_slope \<Rightarrow>
                             (let adx = calc_adx (ta_adx ta) df lookback;
                                  ctype =
                                    (if 0 < upper_slope \<and> 0 < lower_slope \<and> 20 \<le> adx
                                       then CHANNEL_UP
                                     else if upper_slope < 0 \<and> lower_slope < 0 \<and> 20 \<le> adx
                                       then CHANNEL_DOWN
                                     else if adx < 15 then CHANNEL_SIDEWAYS
                                     else if (0 < upper_slope) \<noteq> (0 < lower_slope)
                                       then CHANNEL_TRANSITION
                                     else CHANNEL_SIDEWAYS);
                                  dist_to_upper =
                                    (if 0 < upper - lower then (upper - price) / (upper - lower)
                                     else 0.5);
                                  proximity =
                                    (if dist_to_upper < 0.1 then NearUpper
                                     else if 0.9 < dist_to_upper then NearLower
                                     else InsideChannel)
                              in Inr (ChannelResult
                                   \<lparr>strategy_name = DonchianName,
                                    channel_type = ctype,
                                    current_price = py_round price 2,
                                    upper_band = py_round upper 2,
                                    lower_band = py_round lower 2,
                                    center = py_round middle 2,
                                    position_pct = calc_position_pct price upper lower,
                                    sma_cross = proximity,
                                    details =
                                      DonchianDetails (py_round upper_slope 4)
                                        (py_round lower_slope 4)
                                        (case width of None \<Rightarrow> 0 | Some w \<Rightarrow> py_round w 4)
                                        adx dc_period\<rparr>))))))"

subsection \<open>TrendlineStrategy\<close>

datatype pivot_mode = ModeHigh | ModeLow

text \<open>
  The test of one index in \<open>_find_pivots\<close>. Python's \<open>and\<close> evaluates its right operand
  only when the left one holds.
\<close>

definition is_pivot :: "pivot_mode \<Rightarrow> real list \<Rightarrow> nat \<Rightarrow> nat \<Rightarrow> py_exn + bool" where
  "is_pivot mode vals window i =
     (let left = slice (i - window) i vals;
          right = slice (i + 1) (i + window + 1) vals
      in case mode of
           ModeHigh \<Rightarrow>
             (case np_max left of
                Inl e \<Rightarrow> Inl e
              | Inr ml \<Rightarrow>
                  if ml \<le> vals ! i
                  then (case np_max right of Inl e \<Rightarrow> Inl e | Inr mr \<Rightarrow> Inr (mr \<le> vals ! i))
                  else Inr False)
         | ModeLow \<Rightarrow>
             (case np_min left of
                Inl e \<Rightarrow> Inl e
              | Inr ml \<Rightarrow>
                  if vals ! i \<le> ml
                  then (case np_min right of Inl e \<Rightarrow> Inl e | Inr mr \<Rightarrow> Inr (vals ! i \<le> mr))
                  else Inr False))"

text \<open>The loop of \<open>_find_pivots\<close> over the remaining indices, with the two lists built so far.\<close>

fun find_pivots_loop ::
  "pivot_mode \<Rightarrow> real list \<Rightarrow> nat \<Rightarrow> nat list \<Rightarrow> nat list \<times> real list
     \<Rightarrow> py_exn + (nat list \<times> real list)" where
  "find_pivots_loop mode vals window [] acc = Inr acc"
| "find_pivots_loop mode vals window (i # is) (indices, pvals) =
     (case is_pivot mode vals window i of
        Inl e \<Rightarrow> Inl e
      | Inr True \<Rightarrow> find_pivots_loop mode vals window is (indices @ [i], pvals @ [vals ! i])
      | Inr False \<Rightarrow> find_pivots_loop mode vals window is (indices, pvals))"

definition find_pivots ::
  "real list \<Rightarrow> nat \<Rightarrow> pivot_mode \<Rightarrow> py_exn + (nat list \<times> real list)" where
  "find_pivots vals window mode =
     find_pivots_loop mode vals window [window..<length vals - window] ([], [])"

definition trendline_pattern :: "real \<Rightarrow> real \<Rightarrow> cross_label" where
  "trendline_pattern h_slope l_slope =
     (if 0 < h_slope \<and> 0 < l_slope then PatternAscending
      else if h_slope < 0 \<and> l_slope < 0 then PatternDescending
      else if h_slope < 0 \<and> 0 < l_slope then PatternConverging
      else if 0 < h_slope \<and> l_slope < 0 then PatternExpanding
      else PatternUnclear)"

definition trendline_analyze ::
  "ta_library \<Rightarrow> nat \<Rightarrow> bar list \<Rightarrow> nat \<Rightarrow> analyze_kwargs \<Rightarrow> py_exn + analysis" where
  "trendline_analyze ta self_pivot_window df lookback kwargs =
     (let pivot_window = kwargs_get (kw_pivot_window kwargs) self_pivot_window
      in if length df < lookback then Inr (ErrorResult lookback (length df))
         else
           (let data = tail lookback df;
                highs = map high data;
                lows = map low data;
                closes = map close data
            in case find_pivots highs pivot_window ModeHigh of
                 Inl e \<Rightarrow> Inl e
               | Inr (highs_idx, highs_val) \<Rightarrow>
             (case find_pivots lows pivot_window ModeLow of
                 Inl e \<Rightarrow> Inl e
               | Inr (lows_idx, lows_val) \<Rightarrow>
             (case last_item closes of
                 Inl e \<Rightarrow> Inl e
               | Inr price \<Rightarrow>
                 if length highs_idx < 3 \<or> length lows_idx < 3
                 then
                   (case np_max highs of
                      Inl e \<Rightarrow> Inl e
                    | Inr max_high \<Rightarrow>
                        (case np_min lows of
                           Inl e \<Rightarrow> Inl e
                         | Inr min_low \<Rightarrow>
                             Inr (ChannelResult
                               \<lparr>strategy_name = TrendlineName,
                                channel_type = CHANNEL_SIDEWAYS,
                                current_price = py_round price 2,
                                upper_band = py_round max_high 2,
                                lower_band = py_round min_low 2,
                                center = py_round (mean closes) 2,
                                position_pct = 50,
                                sma_cross = PivotsInsufficient,
                                details =
                                  PivotNote (length highs_idx) (length lows_idx)\<rparr>)))
                 else
                   (case polyfit (map real highs_idx) highs_val of
                      Inl e \<Rightarrow> Inl e
                    | Inr h_coeffs \<Rightarrow>
                   (case polyfit (map real lows_idx) lows_val of
                      Inl e \<Rightarrow> Inl e
                    | Inr l_coeffs \<Rightarrow>
                       (let h_slope = fst h_coeffs;
                            upper_at_end = polyval h_coeffs (real (length data) - 1);
                            l_slope = fst l_coeffs;
                            lower_at_end = polyval l_coeffs (real (length data) - 1);
                            mid = (upper_at_end + lower_at_end) / 2;
                            adx = calc_adx (ta_adx ta) df lookback;
                            both_up = (0 < h_slope \<and> 0 < l_slope);
                            both_down = (h_slope < 0 \<and> l_slope < 0);
                            ctype =
                              (if both_up \<and> 20 \<le> adx then CHANNEL_UP
                               else if both_down \<and> 20 \<le> adx then CHANNEL_DOWN
                               else if both_up \<or> both_down then CHANNEL_TRANSITION
                               else CHANNEL_SIDEWAYS);
                            pattern = trendline_pattern h_slope l_slope
                        in Inr (ChannelResult
                             \<lparr>strategy_name = TrendlineName,
                              channel_type = ctype,
                              current_price = py_round price 2,
                              upper_band = py_round upper_at_end 2,
                              lower_band = py_round lower_at_end 2,
                              center = py_round mid 2,
                              position_pct = calc_position_pct price upper_at_end lower_at_end,
                              sma_cross = pattern,
                              details =
                                TrendlineDetails (py_round h_slope 4) (py_round l_slope 4)
                                  (length highs_idx) (length lows_idx) pattern adx\<rparr>))))))))"

subsection \<open>The strategy objects and their common interface\<close>

datatype strategy =
    LinearRegressionStrategy (adx_threshold: real) (r2_threshold: real)
  | BollingerBandStrategy (bb_period: nat) (bb_std: real)
  | DonchianChannelStrategy (dc_period: nat)
  | TrendlineStrategy (pivot_window: nat)

fun analyze ::
  "ta_library \<Rightarrow> strategy \<Rightarrow> bar list \<Rightarrow> nat \<Rightarrow> analyze_kwargs \<Rightarrow> py_exn + analysis" where
  "analyze ta (LinearRegressionStrategy adx_thr r2_thr) df lookback kwargs =
     regression_analyze (ta_adx ta) adx_thr r2_thr df lookback kwargs"
| "analyze ta (BollingerBandStrategy period dev) df lookback kwargs =
     bollinger_analyze ta period dev df lookback kwargs"
| "analyze ta (DonchianChannelStrategy period) df lookback kwargs =
     donchian_analyze ta period df lookback kwargs"
| "analyze ta (TrendlineStrategy window) df lookback kwargs =
     trendline_analyze ta window df lookback kwargs"

text \<open>The minimum number of bars each variant states in its guard.\<close>

fun min_bars :: "strategy \<Rightarrow> nat \<Rightarrow> analyze_kwargs \<Rightarrow> nat" where
  "min_bars (LinearRegressionStrategy _ _) lookback kwargs =
     max lookback (kwargs_get (kw_sma_long kwargs) 60 + 10)"
| "min_bars (BollingerBandStrategy period _) lookback kwargs =
     kwargs_get (kw_bb_period kwargs) period + 10"
| "min_bars (DonchianChannelStrategy period) lookback kwargs =
     kwargs_get (kw_dc_period kwargs) period + 10"
| "min_bars (TrendlineStrategy _) lookback kwargs = lookback"

subsection \<open>The strategy registry\<close>

text \<open>
  The keyword arguments given to a constructor: the six parameter names the four classes
  declare, and the names of any other keywords. A class accepts only the parameters of its
  own \<open>__init__\<close>; Python raises a TypeError for any other keyword.
\<close>

record ctor_kwargs =
  ck_adx_threshold :: "real option"
  ck_r2_threshold :: "real option"
  ck_bb_period :: "nat option"
  ck_bb_std :: "real option"
  ck_dc_period :: "nat option"
  ck_pivot_window :: "nat option"
  ck_other :: "string list"

definition no_kwargs :: ctor_kwargs where
  "no_kwargs = \<lparr>ck_adx_threshold = None, ck_r2_threshold = None, ck_bb_period = None,
     ck_bb_std = None, ck_dc_period = None, ck_pivot_window = None, ck_other = []\<rparr>"

definition new_regression :: "ctor_kwargs \<Rightarrow> py_exn + strategy" where
  "new_regression kw =
     (if ck_bb_period kw \<noteq> None \<or> ck_bb_std kw \<noteq> None \<or> ck_dc_period kw \<noteq> None
         \<or> ck_pivot_window kw \<noteq> None \<or> ck_other kw \<noteq> []
      then Inl TypeError
      else Inr (LinearRegressionStrategy (kwargs_get (ck_adx_threshold kw) 25)
                  (kwargs_get (ck_r2_threshold kw) 0.5)))"

definition new_bollinger :: "ctor_kwargs \<Rightarrow> py_exn + strategy" where
  "new_bollinger kw =
     (if ck_adx_threshold kw \<noteq> None \<or> ck_r2_threshold kw \<noteq> None \<or> ck_dc_period kw \<noteq> None
         \<or> ck_pivot_window kw \<noteq> None \<or> ck_other kw \<noteq> []
      then Inl TypeError
      else Inr (BollingerBandStrategy (kwargs_get (ck_bb_period kw) 20)
                  (kwargs_get (ck_bb_std kw) 2)))"

definition new_donchian :: "ctor_kwargs \<Rightarrow> py_exn + strategy" where
  "new_donchian kw =
     (if ck_adx_threshold kw \<noteq> None \<or> ck_r2_threshold kw \<noteq> None \<or> ck_bb_period kw \<noteq> None
         \<or> ck_bb_std kw \<noteq> None \<or> ck_pivot_window kw \<noteq> None \<or> ck_other kw \<noteq> []
      then Inl TypeError
      else Inr (DonchianChannelStrategy (kwargs_get (ck_dc_period kw) 20)))"

definition new_trendline :: "ctor_kwargs \<Rightarrow> py_exn + strategy" where
  "new_trendline kw =
     (if ck_adx_threshold kw \<noteq> None \<or> ck_r2_threshold kw \<noteq> None \<or> ck_bb_period kw \<noteq> None
         \<or> ck_bb_std kw \<noteq> None \<or> ck_dc_period kw \<noteq> None \<or> ck_other kw \<noteq> []
      then Inl TypeError
      else Inr (TrendlineStrategy (kwargs_get (ck_pivot_window kw) 5)))"

definition ALL_STRATEGIES :: "(string \<times> (ctor_kwargs \<Rightarrow> py_exn + strategy)) list" where
  "ALL_STRATEGIES =
     [(''regression'', new_regression), (''bollinger'', new_bollinger),
      (''donchian'', new_donchian), (''trendline'', new_trendline)]"

definition DEFAULT_STRATEGY_NAMES :: "string list" where
  "DEFAULT_STRATEGY_NAMES = [''regression'', ''bollinger'', ''donchian'', ''trendline'']"

text \<open>
  \<open>str.strip()\<close> and \<open>str.lower()\<close> on ASCII strings: the white space of \<open>str.isspace\<close>
  below 128, and the letters A to Z.
\<close>

definition is_space :: "char \<Rightarrow> bool" where
  "is_space c = (of_char c \<in> {9, 10, 11, 12, 13, 28, 29, 30, 31, 32 :: nat})"

definition py_strip :: "string \<Rightarrow> string" where
  "py_strip s = rev (dropWhile is_space (rev (dropWhile is_space s)))"

definition lower_char :: "char \<Rightarrow> char" where
  "lower_char c =
     (case c of
        Char b0 b1 b2 b3 b4 b5 b6 b7 \<Rightarrow>
          if 65 \<le> (of_char c :: nat) \<and> (of_char c :: nat) \<le> 90
          then Char b0 b1 b2 b3 b4 True b6 b7 else c)"

definition py_lower :: "string \<Rightarrow> string" where
  "py_lower s = map lower_char s"

text \<open>
  The loop of \<open>get_strategies\<close>: the instances built so far and the unknown names
  reported by \<open>print\<close>. An exception of a constructor leaves the loop.
\<close>

fun get_strategies_loop ::
  "string list \<Rightarrow> ctor_kwargs \<Rightarrow> strategy list \<times> string list
     \<Rightarrow> py_exn + (strategy list \<times> string list)" where
  "get_strategies_loop [] kwargs acc = Inr acc"
| "get_strategies_loop (n # ns) kwargs (strategies, warnings) =
     (let n' = py_lower (py_strip n)
      in case map_of ALL_STRATEGIES n' of
           Some cls \<Rightarrow>
             (case cls kwargs of
                Inl e \<Rightarrow> Inl e
              | Inr s \<Rightarrow> get_strategies_loop ns kwargs (strategies @ [s], warnings))
         | None \<Rightarrow> get_strategies_loop ns kwargs (strategies, warnings @ [n']))"

text \<open>\<open>names or DEFAULT_STRATEGY_NAMES\<close>: \<open>None\<close> and the empty list are both false.\<close>

definition get_strategies ::
  "string list option \<Rightarrow> ctor_kwargs \<Rightarrow> py_exn + (strategy list \<times> string list)" where
  "get_strategies names kwargs =
     (let names' = (case names of None \<Rightarrow> DEFAULT_STRATEGY_NAMES
                    | Some ns \<Rightarrow> if ns = [] then DEFAULT_STRATEGY_NAMES else ns)
      in get_strategies_loop names' kwargs ([], []))"

section \<open>Resampling (channel_analyzer.py)\<close>

text \<open>
  \<open>df.resample(rule)\<close> for a fixed-width rule such as \<open>4h\<close>, as pandas does it: the time
  axis from the day of the first row on is cut into consecutive bins of \<open>rule\<close> time units,
  closed on the left and labelled by their left edge, and every bin between the first and the
  last row is aggregated, an empty one too. \<open>first\<close>, \<open>max\<close>, \<open>min\<close> and \<open>last\<close> of an
  empty bin are NaN and its \<open>sum\<close> is 0. Times count seconds.
\<close>

definition start_day :: "int \<Rightarrow> int" where
  "start_day t = (t div 86400) * 86400"

definition bin_index :: "int \<Rightarrow> nat \<Rightarrow> int \<Rightarrow> int" where
  "bin_index origin rule t = (t - origin) div int rule"

definition bin_rows :: "int \<Rightarrow> nat \<Rightarrow> bar list \<Rightarrow> int \<Rightarrow> bar list" where
  "bin_rows origin rule df k = filter (\<lambda>b. bin_index origin rule (time b) = k) df"

record agg_row =
  agg_time :: int
  agg_open :: "real option"
  agg_high :: "real option"
  agg_low :: "real option"
  agg_close :: "real option"
  agg_volume :: int

definition aggregate :: "int \<Rightarrow> bar list \<Rightarrow> agg_row" where
  "aggregate t rows =
     \<lparr>agg_time = t,
      agg_open = (case rows of [] \<Rightarrow> None | r # _ \<Rightarrow> Some (open_price r)),
      agg_high = (case rows of [] \<Rightarrow> None | r # rs \<Rightarrow> Some (fold max (map high rs) (high r))),
      agg_low = (case rows of [] \<Rightarrow> None | r # rs \<Rightarrow> Some (fold min (map low rs) (low r))),
      agg_close = (if rows = [] then None else Some (close (last rows))),
      agg_volume = sum_list (map volume rows)\<rparr>"

text \<open>\<open>dropna()\<close> keeps the rows without a NaN.\<close>

definition dropna :: "agg_row list \<Rightarrow> bar list" where
  "dropna rows =
     List.map_filter
       (\<lambda>a. case (agg_open a, agg_high a, agg_low a, agg_close a) of
               (Some opn, Some h, Some l, Some c) \<Rightarrow>
                 Some \<lparr>time = agg_time a, open_price = opn, high = h, low = l, close = c,
                       volume = agg_volume a\<rparr>
             | _ \<Rightarrow> None)
       rows"

text \<open>
  \<open>_resample\<close>: \<open>None\<close> when pandas raises, which for parsed times and complete rows is the
  case of an invalid rule only.
\<close>

definition resample :: "bar list \<Rightarrow> nat \<Rightarrow> bar list option" where
  "resample df rule =
     (if rule = 0 then None
      else case df of
             [] \<Rightarrow> Some []
           | b # bs \<Rightarrow>
               (let origin = start_day (fold min (map time bs) (time b));
                    k_first = bin_index origin rule (fold min (map time bs) (time b));
                    k_last = bin_index origin rule (fold max (map time bs) (time b))
                in Some (dropna
                     (map (\<lambda>k. aggregate (origin + k * int rule) (bin_rows origin rule df k))
                        [k_first..k_last]))))"

section \<open>Sample inputs\<close>

text \<open>An indicator library whose ADX is always NaN and whose bands are all zero.\<close>

definition no_ta :: ta_library where
  "no_ta = \<lparr>ta_adx = (\<lambda>_. None),
     ta_bollinger = (\<lambda>_ _ _. \<lparr>bollinger_hband = 0, bollinger_lband = 0, bollinger_mavg = 0,
        bollinger_wband = 0, bollinger_pband = None, bollinger_mavg_series = [],
        bollinger_wband_series = []\<rparr>),
     ta_donchian = (\<lambda>_ _. \<lparr>donchian_channel_hband = 0, donchian_channel_lband = 0,
        donchian_channel_mband = 0, donchian_channel_wband = None,
        donchian_channel_hband_series = [], donchian_channel_lband_series = []\<rparr>)\<rparr>"

definition default_kwargs :: analyze_kwargs where
  "default_kwargs = \<lparr>kw_sma_short = None, kw_sma_long = None, kw_bb_period = None,
     kw_bb_std = None, kw_dc_period = None, kw_pivot_window = None\<rparr>"

definition sma_kwargs :: analyze_kwargs where
  "sma_kwargs = default_kwargs\<lparr>kw_sma_short := Some 2, kw_sma_long := Some 3\<rparr>"

text \<open>Thirteen hourly bars that rise by one unit each.\<close>

definition price_bar :: "int \<Rightarrow> real \<Rightarrow> bar" where
  "price_bar t p = \<lparr>time = 3600 * t, open_price = p, high = p + 0.456, low = p - 0.456,
     close = p, volume = 100\<rparr>"

definition rising_bars :: "bar list" where
  "rising_bars =
     [price_bar 0 1950, price_bar 1 1951, price_bar 2 1952, price_bar 3 1953,
      price_bar 4 1954, price_bar 5 1955, price_bar 6 1956, price_bar 7 1957,
      price_bar 8 1958, price_bar 9 1959, price_bar 10 1960, price_bar 11 1961,
      price_bar 12 1962]"

section \<open>Notions used to state the strategy properties\<close>

text \<open>The channel result of a call, when the call returns one.\<close>

definition analysis_of :: "py_exn + analysis \<Rightarrow> channel_result option" where
  "analysis_of out = (case out of Inr (ChannelResult r) \<Rightarrow> Some r | _ \<Rightarrow> None)"

text \<open>
  The simple moving average of the last \<open>w\<close> closes, undefined with fewer than \<open>w\<close>
  bars, and the cross label of a short and a long average.
\<close>

definition sma :: "nat \<Rightarrow> bar list \<Rightarrow> real option" where
  "sma w df =
     (if w = 0 \<or> length df < w then None
      else Some (sum_list (map close (tail w df)) / real w))"

definition sma_cross_rule :: "real option \<Rightarrow> real option \<Rightarrow> cross_label" where
  "sma_cross_rule short_ma long_ma =
     (case (short_ma, long_ma) of
        (Some s, Some l) \<Rightarrow> if l < s then SmaBullish else SmaBearish
      | _ \<Rightarrow> SmaInsufficient)"

text \<open>
  The symmetric pivot test: the value at \<open>i\<close> is at least (at most) every value of the
  \<open>w\<close> positions on each side. The pivots are the indices that have \<open>w\<close> neighbours on
  both sides and pass the test.
\<close>

definition pivot_high_at :: "real list \<Rightarrow> nat \<Rightarrow> nat \<Rightarrow> bool" where
  "pivot_high_at vals w i =
     ((\<forall>j \<in> {i - w..<i}. vals ! j \<le> vals ! i) \<and> (\<forall>j \<in> {i + 1..<i + w + 1}. vals ! j \<le> vals ! i))"

definition pivot_low_at :: "real list \<Rightarrow> nat \<Rightarrow> nat \<Rightarrow> bool" where
  "pivot_low_at vals w i =
     ((\<forall>j \<in> {i - w..<i}. vals ! i \<le> vals ! j) \<and> (\<forall>j \<in> {i + 1..<i + w + 1}. vals ! i \<le> vals ! j))"

definition pivot_highs :: "real list \<Rightarrow> nat \<Rightarrow> nat list" where
  "pivot_highs vals w = filter (pivot_high_at vals w) [w..<length vals - w]"

definition pivot_lows :: "real list \<Rightarrow> nat \<Rightarrow> nat list" where
  "pivot_lows vals w = filter (pivot_low_at vals w) [w..<length vals - w]"

definition window_highs :: "bar list \<Rightarrow> nat \<Rightarrow> real list" where
  "window_highs df lookback = map high (tail lookback df)"

definition window_lows :: "bar list \<Rightarrow> nat \<Rightarrow> real list" where
  "window_lows df lookback = map low (tail lookback df)"





subsection \<open>Notions used to state the resampling property\<close>

text \<open>
  The source rows of the bucket that an output row labels, the aggregation rule (open the
  first, high the maximum, low the minimum, close the last, volume the sum), and the output
  row built from the rows of a bucket.
\<close>

definition bucket :: "bar list \<Rightarrow> nat \<Rightarrow> bar \<Rightarrow> bar list" where
  "bucket df rule r = filter (\<lambda>b. time r \<le> time b \<and> time b < time r + int rule) df"

definition is_aggregate_of :: "bar \<Rightarrow> bar list \<Rightarrow> bool" where
  "is_aggregate_of r rows =
     (rows \<noteq> [] \<and> open_price r = open_price (hd rows)
      \<and> high r = Max (set (map high rows)) \<and> low r = Min (set (map low rows))
      \<and> close r = close (last rows) \<and> volume r = sum_list (map volume rows))"

definition bar_of_rows :: "int \<Rightarrow> bar list \<Rightarrow> bar" where
  "bar_of_rows t rows =
     \<lparr>time = t, open_price = open_price (hd rows), high = Max (set (map high rows)),
      low = Min (set (map low rows)), close = close (last rows),
      volume = sum_list (map volume rows)\<rparr>"

text \<open>Five hourly bars with a gap of seven hours after the third.\<close>

definition gap_bars :: "bar list" where
  "gap_bars = [price_bar 0 1950, price_bar 1 1953, price_bar 2 1951,
               price_bar 10 1949, price_bar 11 1952]"

subsection \<open>Notions used to state the registry properties\<close>

text \<open>
  The identifier as the loop compares it, whether it is one of the four registered names, and
  the instance a registered name yields when no construction parameter is given.
\<close>

definition normalise :: "string \<Rightarrow> string" where
  "normalise n = py_lower (py_strip n)"

definition recognised :: "string \<Rightarrow> bool" where
  "recognised n = (n \<in> set DEFAULT_STRATEGY_NAMES)"

definition default_instance :: "string \<Rightarrow> strategy" where
  "default_instance n =
     (if n = ''regression'' then LinearRegressionStrategy 25 0.5
      else if n = ''bollinger'' then BollingerBandStrategy 20 2
      else if n = ''donchian'' then DonchianChannelStrategy 20
      else TrendlineStrategy 5)"

subsection \<open>Notions used to state what a call returns\<close>

text \<open>A field of the channel result of a call, when the call returns one.\<close>

definition returned :: "(channel_result \<Rightarrow> 'a) \<Rightarrow> py_exn + analysis \<Rightarrow> 'a option" where
  "returned field out = map_option field (analysis_of out)"

text \<open>The slope of the least-squares line through the pivots at the given indices.\<close>

definition pivot_slope :: "real list \<Rightarrow> nat list \<Rightarrow> real" where
  "pivot_slope vals idx =
     (case polyfit (map real idx) (map ((!) vals) idx) of Inl _ \<Rightarrow> 0 | Inr coeffs \<Rightarrow> fst coeffs)"

text \<open>Nine hourly bars that rise in a zigzag.\<close>

definition zigzag_bars :: "bar list" where
  "zigzag_bars =
     [price_bar 0 10, price_bar 1 12, price_bar 2 11, price_bar 3 13, price_bar 4 12,
      price_bar 5 14, price_bar 6 13, price_bar 7 15, price_bar 8 14]"

section \<open>Rounding\<close>

lemma round_half_even_ge: "of_int k \<le> y \<Longrightarrow> k \<le> round_half_even y"
  unfolding round_half_even_def Let_def by (auto simp: le_floor_iff) linarith+

lemma round_half_even_le: "y \<le> of_int k \<Longrightarrow> round_half_even y \<le> k"
  unfolding round_half_even_def Let_def by (auto simp: floor_le_iff)

lemma py_round_nonneg: "0 \<le> x \<Longrightarrow> 0 \<le> py_round x n"
proof -
  assume "0 \<le> x"
  then have "of_int 0 \<le> x * 10 ^ n" by simp
  then have "0 \<le> round_half_even (x * 10 ^ n)" by (rule round_half_even_ge)
  then show ?thesis by (simp add: py_round_def)
qed

lemma py_round_1_le_100: "x \<le> 100 \<Longrightarrow> py_round x 1 \<le> 100"
proof -
  assume "x \<le> 100"
  then have "x * 10 ^ 1 \<le> of_int 1000" by simp
  then have "round_half_even (x * 10 ^ 1) \<le> 1000" by (rule round_half_even_le)
  then have "real_of_int (round_half_even (x * 10 ^ 1)) \<le> 1000" by linarith
  then show ?thesis by (simp add: py_round_def)
qed

section \<open>Time-frame consensus\<close>

lemma count_type_le: "count_type t rs \<le> length (valid_results rs)"
  by (simp add: count_type_def)

lemma count_up_down_le:
  "count_type CHANNEL_UP rs + count_type CHANNEL_DOWN rs \<le> length (valid_results rs)"
proof -
  have "length (filter (\<lambda>r. result_channel_type r = Some CHANNEL_UP) xs)
        + length (filter (\<lambda>r. result_channel_type r = Some CHANNEL_DOWN) xs) \<le> length xs" for xs
    by (induction xs) auto
  then show ?thesis by (simp add: count_type_def)
qed


lemma consensus_no_valid:
  "valid_results rs = [] \<Longrightarrow>
     consensus rs = \<lparr>v_label = NoValidData, v_up = 0, v_down = 0, v_total = 0\<rparr>"
  by (simp add: consensus_def valid_results_def)

lemma consensus_some_valid:
  assumes ne: "valid_results rs \<noteq> []"
  shows "let up = count_type CHANNEL_UP rs; down = count_type CHANNEL_DOWN rs;
             total = length (valid_results rs); c = consensus rs
         in v_up c = up \<and> v_down c = down \<and> v_total c = total
            \<and> (is_all_bullish (v_label c) \<longleftrightarrow> up = total)
            \<and> (is_all_bearish (v_label c) \<longleftrightarrow> down = total)
            \<and> (is_lean_bullish (v_label c) \<longleftrightarrow>
                  up \<noteq> total \<and> down < up \<and> real total / 2 \<le> real up)
            \<and> (is_lean_bearish (v_label c) \<longleftrightarrow>
                  down \<noteq> total \<and> up < down \<and> real total / 2 \<le> real down)
            \<and> (v_label c = Divergent up down (int total - int up - int down) \<longleftrightarrow>
                  \<not> is_all_bullish (v_label c) \<and> \<not> is_all_bearish (v_label c)
                  \<and> \<not> is_lean_bullish (v_label c) \<and> \<not> is_lean_bearish (v_label c))"
proof -
  have le: "count_type CHANNEL_UP rs + count_type CHANNEL_DOWN rs \<le> length (valid_results rs)"
    by (rule count_up_down_le)
  have pos: "0 < length (valid_results rs)" using ne by simp
  show ?thesis
    using ne le pos
    unfolding consensus_def Let_def valid_results_def [symmetric] count_type_def [symmetric]
    by auto
qed

lemma consensus_all_up:
  assumes a: "rs \<noteq> []" "\<forall>r \<in> set rs. result_channel_type r = Some CHANNEL_UP"
  shows "v_label (consensus rs) = AllBullish (length rs) (length rs)
        \<and> v_up (consensus rs) = v_total (consensus rs) \<and> v_down (consensus rs) = 0"
proof -
  have v: "filter (\<lambda>r. \<not> has_error r) rs = rs"
    using a by (auto simp: has_error_def result_channel_type_def split: analysis.splits intro!: filter_True)
  have u: "filter (\<lambda>r. result_channel_type r = Some CHANNEL_UP) rs = rs"
    using a by (auto intro!: filter_True)
  have d: "filter (\<lambda>r. result_channel_type r = Some CHANNEL_DOWN) rs = []"
    using a by (auto simp: filter_empty_conv)
  show ?thesis
    using a by (simp add: consensus_def Let_def v u d)
qed

text \<open>
  C3. With no valid (non-error) result the verdict is the no-valid-data label with all three
  counts zero. Otherwise the verdict carries the number of Up results, of Down results and of
  valid results, and its label is: unanimous bullish exactly when up = total; unanimous
  bearish exactly when down = total; leaning bullish exactly when up exceeds down, up is at
  least half of total and the results are not unanimous; leaning bearish symmetrically; and
  the divergent label, reporting total - up - down as the rest, in every other case. When
  every strategy reports Up, the label is unanimous bullish, up = total and down = 0.
\<close>

theorem consensus_verdict:
  "(valid_results rs = [] \<longrightarrow>
      consensus rs = \<lparr>v_label = NoValidData, v_up = 0, v_down = 0, v_total = 0\<rparr>)
   \<and> (valid_results rs \<noteq> [] \<longrightarrow>
        (let up = count_type CHANNEL_UP rs; down = count_type CHANNEL_DOWN rs;
             total = length (valid_results rs); c = consensus rs
         in v_up c = up \<and> v_down c = down \<and> v_total c = total
            \<and> (is_all_bullish (v_label c) \<longleftrightarrow> up = total)
            \<and> (is_all_bearish (v_label c) \<longleftrightarrow> down = total)
            \<and> (is_lean_bullish (v_label c) \<longleftrightarrow>
                  up \<noteq> total \<and> down < up \<and> real total / 2 \<le> real up)
            \<and> (is_lean_bearish (v_label c) \<longleftrightarrow>
                  down \<noteq> total \<and> up < down \<and> real total / 2 \<le> real down)
            \<and> (v_label c = Divergent up down (int total - int up - int down) \<longleftrightarrow>
                  \<not> is_all_bullish (v_label c) \<and> \<not> is_all_bearish (v_label c)
                  \<and> \<not> is_lean_bullish (v_label c) \<and> \<not> is_lean_bearish (v_label c))))
   \<and> (rs \<noteq> [] \<and> (\<forall>r \<in> set rs. result_channel_type r = Some CHANNEL_UP) \<longrightarrow>
        v_label (consensus rs) = AllBullish (length rs) (length rs)
        \<and> v_up (consensus rs) = v_total (consensus rs) \<and> v_down (consensus rs) = 0)"
  using consensus_no_valid [of rs] consensus_some_valid [of rs] consensus_all_up [of rs]
  by blast

theorem consensus_verdict_witness:
  "valid_results [ErrorResult 70 5] = []
   \<and> consensus [ErrorResult 70 5] = \<lparr>v_label = NoValidData, v_up = 0, v_down = 0, v_total = 0\<rparr>
   \<and> valid_results [up_result, ErrorResult 70 5] \<noteq> []
   \<and> list_all (\<lambda>r. result_channel_type r = Some CHANNEL_UP) [up_result, up_result]
   \<and> v_label (consensus [up_result, up_result]) = AllBullish 2 2
   \<and> v_up (consensus [up_result, ErrorResult 70 5]) = 1
   \<and> is_all_bullish (v_label (consensus [up_result, ErrorResult 70 5]))"
  using consensus_verdict [of "[ErrorResult 70 5]"] consensus_verdict [of "[up_result, up_result]"]
    consensus_verdict [of "[up_result, ErrorResult 70 5]"]
  by (simp add: valid_results_def has_error_def up_result_def result_channel_type_def count_type_def Let_def)

section \<open>Multi-time-frame summary\<close>

lemma count_leaning_eq:
  "count_leaning tfs (a, b)
   = (a + length (filter leans_bullish tfs), b + length (filter leans_bearish tfs))"
  by (induction tfs arbitrary: a b) (auto simp: leans_bullish_def leans_bearish_def)

lemma bull_bear_le:
  "length (filter leans_bullish tfs) + length (filter leans_bearish tfs) \<le> length tfs"
  by (induction tfs) (auto simp: leans_bullish_def leans_bearish_def)

lemma all_filter_length: "(\<forall>x \<in> set xs. P x) \<longleftrightarrow> length (filter P xs) = length xs"
proof (induction xs)
  case Nil
  then show ?case by simp
next
  case (Cons x xs)
  have "length (filter P xs) \<le> length xs" by (rule length_filter_le)
  then have "length (filter P xs) \<noteq> Suc (length xs)" by linarith
  with Cons show ?case by simp
qed

lemma summary_conclusion:
  "s_conclusion (generate_summary tfs) =
     (if valid_tfs tfs = [] then SummaryNoData
      else if bullish_count tfs = length (valid_tfs tfs) then StrongBullish
      else if bearish_count tfs = length (valid_tfs tfs) then StrongBearish
      else if bearish_count tfs < bullish_count tfs
        then OverallBullish (bullish_count tfs) (length (valid_tfs tfs))
      else if bullish_count tfs < bearish_count tfs
        then OverallBearish (bearish_count tfs) (length (valid_tfs tfs))
      else DirectionsDiverge)"
  by (simp add: generate_summary_def Let_def count_leaning_eq valid_tfs_def [symmetric]
      bullish_count_def bearish_count_def)

lemma list_ex_filter: "list_ex P (filter Q xs) \<longleftrightarrow> (\<exists>x \<in> set xs. Q x \<and> P x)"
  by (auto simp: list_ex_iff)

lemma conflict_flags:
  "list_ex (\<lambda>tf. con_down tf < con_up tf)
      (filter (\<lambda>tf. tf_name tf \<in> {name_daily, name_weekly}) (valid_tfs tfs))
    \<and> list_ex (\<lambda>tf. con_up tf < con_down tf)
      (filter (\<lambda>tf. tf_name tf \<in> {name_1h, name_4h}) (valid_tfs tfs))
   \<longleftrightarrow> long_bull_short_bear tfs"
  "list_ex (\<lambda>tf. con_up tf < con_down tf)
      (filter (\<lambda>tf. tf_name tf \<in> {name_daily, name_weekly}) (valid_tfs tfs))
    \<and> list_ex (\<lambda>tf. con_down tf < con_up tf)
      (filter (\<lambda>tf. tf_name tf \<in> {name_1h, name_4h}) (valid_tfs tfs))
   \<longleftrightarrow> long_bear_short_bull tfs"
  unfolding long_bull_short_bear_def long_bear_short_bull_def list_ex_filter long_horizon_def
      short_horizon_def leans_bullish_def leans_bearish_def
  by simp_all

lemma summary_details:
  "s_details (generate_summary tfs) =
     (if valid_tfs tfs = [] then []
      else map (\<lambda>tf. TimeframeLine (tf_name tf) (map_option v_label (tf_consensus tf)))
             (valid_tfs tfs)
           @ (if long_bull_short_bear tfs then [WarnLongBullShortPullback]
              else if long_bear_short_bull tfs then [WarnLongBearShortRebound] else []))"
proof (cases "valid_tfs tfs = []")
  case True
  then show ?thesis by (simp add: generate_summary_def valid_tfs_def)
next
  case False
  then show ?thesis
    unfolding generate_summary_def Let_def valid_tfs_def [symmetric] conflict_flags
    by (simp split: prod.splits)
qed

lemma warn_not_in_lines:
  "WarnLongBullShortPullback \<notin> set (map (\<lambda>tf. TimeframeLine (f tf) (g tf)) xs)"
  "WarnLongBearShortRebound \<notin> set (map (\<lambda>tf. TimeframeLine (f tf) (g tf)) xs)"
  by auto

lemma summary_warnings:
  "(WarnLongBullShortPullback \<in> set (s_details (generate_summary tfs))
      \<longleftrightarrow> long_bull_short_bear tfs)
   \<and> (WarnLongBearShortRebound \<in> set (s_details (generate_summary tfs))
      \<longleftrightarrow> long_bear_short_bull tfs \<and> \<not> long_bull_short_bear tfs)"
proof (cases "valid_tfs tfs = []")
  case True
  then show ?thesis
    by (simp add: summary_details long_bull_short_bear_def long_bear_short_bull_def)
next
  case False
  then show ?thesis
    by (simp add: summary_details warn_not_in_lines image_iff)
qed

lemma conclusion_chain:
  fixes B E n :: nat
  assumes "B + E \<le> n" and "0 < n"
  shows "let c = (if B = n then StrongBullish
                  else if E = n then StrongBearish
                  else if E < B then OverallBullish B n
                  else if B < E then OverallBearish E n
                  else DirectionsDiverge)
         in (c = StrongBullish \<longleftrightarrow> B = n)
            \<and> (c = StrongBearish \<longleftrightarrow> E = n)
            \<and> (is_overall_bullish c \<longleftrightarrow> B \<noteq> n \<and> E < B)
            \<and> (is_overall_bearish c \<longleftrightarrow> E \<noteq> n \<and> B < E)
            \<and> (c = DirectionsDiverge \<longleftrightarrow> B = E)"
  using assms by (simp add: Let_def)

text \<open>
  C4. Among the time-frames without an error, a time-frame leans bullish when its verdict
  counts more Up than Down results, and bearish in the opposite case. With at least one such
  time-frame, the conclusion is strong bullish exactly when every one leans bullish, strong
  bearish exactly when every one leans bearish, overall bullish (bearish) exactly when the
  time-frames are not unanimous and strictly more of them lean bullish (bearish) than the
  other way, and divergent exactly when the two counts are equal. With no such time-frame the
  summary is the insufficient-data conclusion with no details. For four time-frames that all
  lean bullish the conclusion is strong bullish and neither conflict warning is in the
  details.
\<close>

theorem summary_conclusion_rule:
  "(valid_tfs tfs = [] \<longrightarrow>
      generate_summary tfs = \<lparr>s_conclusion = SummaryNoData, s_details = []\<rparr>)
   \<and> (valid_tfs tfs \<noteq> [] \<longrightarrow>
        (let c = s_conclusion (generate_summary tfs)
         in (c = StrongBullish \<longleftrightarrow> (\<forall>tf \<in> set (valid_tfs tfs). leans_bullish tf))
            \<and> (c = StrongBearish \<longleftrightarrow> (\<forall>tf \<in> set (valid_tfs tfs). leans_bearish tf))
            \<and> (is_overall_bullish c \<longleftrightarrow>
                  \<not> (\<forall>tf \<in> set (valid_tfs tfs). leans_bullish tf)
                  \<and> bearish_count tfs < bullish_count tfs)
            \<and> (is_overall_bearish c \<longleftrightarrow>
                  \<not> (\<forall>tf \<in> set (valid_tfs tfs). leans_bearish tf)
                  \<and> bullish_count tfs < bearish_count tfs)
            \<and> (c = DirectionsDiverge \<longleftrightarrow> bullish_count tfs = bearish_count tfs)))
   \<and> (length (valid_tfs tfs) = 4 \<and> (\<forall>tf \<in> set (valid_tfs tfs). leans_bullish tf) \<longrightarrow>
        s_conclusion (generate_summary tfs) = StrongBullish
        \<and> WarnLongBullShortPullback \<notin> set (s_details (generate_summary tfs))
        \<and> WarnLongBearShortRebound \<notin> set (s_details (generate_summary tfs)))"
proof -
  have le: "bullish_count tfs + bearish_count tfs \<le> length (valid_tfs tfs)"
    by (simp add: bullish_count_def bearish_count_def bull_bear_le)
  have ab: "(\<forall>tf \<in> set (valid_tfs tfs). leans_bullish tf)
            \<longleftrightarrow> bullish_count tfs = length (valid_tfs tfs)"
    unfolding bullish_count_def by (rule all_filter_length)
  have ae: "(\<forall>tf \<in> set (valid_tfs tfs). leans_bearish tf)
            \<longleftrightarrow> bearish_count tfs = length (valid_tfs tfs)"
    unfolding bearish_count_def by (rule all_filter_length)
  have p1: "valid_tfs tfs = [] \<longrightarrow>
      generate_summary tfs = \<lparr>s_conclusion = SummaryNoData, s_details = []\<rparr>"
    by (simp add: generate_summary_def valid_tfs_def)
  have p2: "valid_tfs tfs \<noteq> [] \<longrightarrow>
        (let c = s_conclusion (generate_summary tfs)
         in (c = StrongBullish \<longleftrightarrow> (\<forall>tf \<in> set (valid_tfs tfs). leans_bullish tf))
            \<and> (c = StrongBearish \<longleftrightarrow> (\<forall>tf \<in> set (valid_tfs tfs). leans_bearish tf))
            \<and> (is_overall_bullish c \<longleftrightarrow>
                  \<not> (\<forall>tf \<in> set (valid_tfs tfs). leans_bullish tf)
                  \<and> bearish_count tfs < bullish_count tfs)
            \<and> (is_overall_bearish c \<longleftrightarrow>
                  \<not> (\<forall>tf \<in> set (valid_tfs tfs). leans_bearish tf)
                  \<and> bullish_count tfs < bearish_count tfs)
            \<and> (c = DirectionsDiverge \<longleftrightarrow> bullish_count tfs = bearish_count tfs))"
  proof
    assume ne: "valid_tfs tfs \<noteq> []"
    then have pos: "0 < length (valid_tfs tfs)" by simp
    show "let c = s_conclusion (generate_summary tfs)
         in (c = StrongBullish \<longleftrightarrow> (\<forall>tf \<in> set (valid_tfs tfs). leans_bullish tf))
            \<and> (c = StrongBearish \<longleftrightarrow> (\<forall>tf \<in> set (valid_tfs tfs). leans_bearish tf))
            \<and> (is_overall_bullish c \<longleftrightarrow>
                  \<not> (\<forall>tf \<in> set (valid_tfs tfs). leans_bullish tf)
                  \<and> bearish_count tfs < bullish_count tfs)
            \<and> (is_overall_bearish c \<longleftrightarrow>
                  \<not> (\<forall>tf \<in> set (valid_tfs tfs). leans_bearish tf)
                  \<and> bullish_count tfs < bearish_count tfs)
            \<and> (c = DirectionsDiverge \<longleftrightarrow> bullish_count tfs = bearish_count tfs)"
      using conclusion_chain [OF le pos] ne
      by (simp only: Let_def ab ae summary_conclusion if_False)
  qed
  have p3: "length (valid_tfs tfs) = 4 \<and> (\<forall>tf \<in> set (valid_tfs tfs). leans_bullish tf) \<longrightarrow>
        s_conclusion (generate_summary tfs) = StrongBullish
        \<and> WarnLongBullShortPullback \<notin> set (s_details (generate_summary tfs))
        \<and> WarnLongBearShortRebound \<notin> set (s_details (generate_summary tfs))"
  proof
    assume a: "length (valid_tfs tfs) = 4 \<and> (\<forall>tf \<in> set (valid_tfs tfs). leans_bullish tf)"
    then have ne: "valid_tfs tfs \<noteq> []" by auto
    have nb: "\<not> leans_bearish tf" if "tf \<in> set (valid_tfs tfs)" for tf
      using a that by (auto simp: leans_bullish_def leans_bearish_def)
    have c1: "\<not> long_bull_short_bear tfs" and c2: "\<not> long_bear_short_bull tfs"
      using nb by (auto simp: long_bull_short_bear_def long_bear_short_bull_def)
    have "s_conclusion (generate_summary tfs) = StrongBullish"
      using a ne ab by (simp add: summary_conclusion)
    then show "s_conclusion (generate_summary tfs) = StrongBullish
        \<and> WarnLongBullShortPullback \<notin> set (s_details (generate_summary tfs))
        \<and> WarnLongBearShortRebound \<notin> set (s_details (generate_summary tfs))"
      using summary_warnings [of tfs] c1 c2 by simp
  qed
  from p1 p2 p3 show ?thesis by blast
qed

lemma four_bullish_valid: "valid_tfs four_bullish = four_bullish"
  by (simp add: valid_tfs_def four_bullish_def mk_tf_def)

theorem summary_conclusion_rule_witness:
  "valid_tfs [failed_tf] = []
   \<and> generate_summary [failed_tf] = \<lparr>s_conclusion = SummaryNoData, s_details = []\<rparr>
   \<and> valid_tfs four_bullish \<noteq> []
   \<and> length (valid_tfs four_bullish) = 4
   \<and> list_all leans_bullish (valid_tfs four_bullish)
   \<and> s_conclusion (generate_summary four_bullish) = StrongBullish
   \<and> WarnLongBullShortPullback \<notin> set (s_details (generate_summary four_bullish))
   \<and> WarnLongBearShortRebound \<notin> set (s_details (generate_summary four_bullish))"
  using summary_conclusion_rule [of "[failed_tf]"] summary_conclusion_rule [of four_bullish]
  by (simp add: four_bullish_valid)
     (simp add: valid_tfs_def failed_tf_def four_bullish_def mk_tf_def leans_bullish_def
        con_up_def con_down_def)

text \<open>
  C5, as stated, fails when both conflicts are present: the second warning is in an
  \<open>elif\<close> branch, so only the first one is appended.
\<close>

theorem conflict_warnings_both_counterexample:
  "long_bull_short_bear both_conflicts \<and> long_bear_short_bull both_conflicts
   \<and> WarnLongBearShortRebound \<notin> set (s_details (generate_summary both_conflicts))"
  by (simp add: both_conflicts_def generate_summary_def Let_def mk_tf_def
      long_bull_short_bear_def long_bear_short_bull_def valid_tfs_def long_horizon_def
      short_horizon_def leans_bullish_def leans_bearish_def con_up_def con_down_def
      name_1h_def name_4h_def name_daily_def name_weekly_def)

text \<open>
  C5, amended. If some long-horizon time-frame (daily, weekly) leans bullish while some
  short-horizon time-frame (1H, 4H) leans bearish, the details contain the
  large-bullish-small-pullback warning and not the opposite one. If some long-horizon
  time-frame leans bearish while some short-horizon one leans bullish, and the first conflict
  is absent, the details contain the large-bearish-small-rebound warning.
\<close>

theorem conflict_warnings:
  "(long_bull_short_bear tfs \<longrightarrow>
      WarnLongBullShortPullback \<in> set (s_details (generate_summary tfs))
      \<and> WarnLongBearShortRebound \<notin> set (s_details (generate_summary tfs)))
   \<and> (long_bear_short_bull tfs \<and> \<not> long_bull_short_bear tfs \<longrightarrow>
      WarnLongBearShortRebound \<in> set (s_details (generate_summary tfs)))"
  using summary_warnings [of tfs] by blast

theorem conflict_warnings_witness:
  "long_bull_short_bear both_conflicts
   \<and> WarnLongBullShortPullback \<in> set (s_details (generate_summary both_conflicts))
   \<and> long_bear_short_bull rebound_only \<and> \<not> long_bull_short_bear rebound_only
   \<and> WarnLongBearShortRebound \<in> set (s_details (generate_summary rebound_only))"
proof -
  have a: "long_bull_short_bear both_conflicts"
    by (simp add: both_conflicts_def mk_tf_def
      long_bull_short_bear_def valid_tfs_def long_horizon_def
      short_horizon_def leans_bullish_def leans_bearish_def con_up_def con_down_def
      name_1h_def name_4h_def name_daily_def name_weekly_def)
  have b: "long_bear_short_bull rebound_only \<and> \<not> long_bull_short_bear rebound_only"
    by (simp add: rebound_only_def mk_tf_def
      long_bull_short_bear_def long_bear_short_bull_def valid_tfs_def long_horizon_def
      short_horizon_def leans_bullish_def leans_bearish_def con_up_def con_down_def
      name_1h_def name_4h_def name_daily_def name_weekly_def)
  show ?thesis
    using a b conflict_warnings [of both_conflicts] conflict_warnings [of rebound_only]
    by simp
qed

section \<open>Facts about the sample inputs\<close>

lemma len_rising: "length rising_bars = 13" by (simp add: rising_bars_def)

lemma rising_window_highs:
  "window_highs rising_bars 5 = [1958.456, 1959.456, 1960.456, 1961.456, 1962.456]"
  by (simp add: window_highs_def rising_bars_def price_bar_def tail_def)

lemma rising_window_lows:
  "window_lows rising_bars 5 = [1957.544, 1958.544, 1959.544, 1960.544, 1961.544]"
  by (simp add: window_lows_def rising_bars_def price_bar_def tail_def)

lemma reg_eval:
  "regression_analyze (\<lambda>_. None) 25 2 rising_bars 3 sma_kwargs
   = Inr (ChannelResult
       \<lparr>strategy_name = RegressionName, channel_type = CHANNEL_SIDEWAYS,
        current_price = 1962, upper_band = 1962, lower_band = 1962, center = 1962,
        position_pct = 50, sma_cross = SmaBullish,
        details = RegressionDetails 1 0.051 1 0 (Some 1961.5) (Some 1961) 0\<rparr>)"
  by (simp add: regression_analyze_def rising_bars_def price_bar_def sma_kwargs_def
      default_kwargs_def kwargs_get_def tail_def Let_def arange_def polyfit_def polyval_def
      mean_def r_squared_of_def np_std_def calc_adx_def calc_sma_cross_def
      rolling_mean_last_def regression_channel_type_def calc_position_pct_def
      py_round_def round_half_even_def upt_rec power2_eq_square)

section \<open>Too few bars\<close>

text \<open>
  C2. Whenever the series has fewer bars than the minimum of the variant
  (\<open>max(lookback, sma_long + 10)\<close> for the regression variant, \<open>bb_period + 10\<close> for the
  Bollinger variant, \<open>dc_period + 10\<close> for the Donchian variant, \<open>lookback\<close> for the
  trendline variant), \<open>analyze\<close> returns normally and what it returns is the error
  dictionary alone: no exception and no channel field.
\<close>

theorem analyze_short_series:
  "length df < min_bars s lookback kwargs \<Longrightarrow>
     analyze ta s df lookback kwargs
       = Inr (ErrorResult (min_bars s lookback kwargs) (length df))"
  by (cases s)
     (simp_all add: regression_analyze_def bollinger_analyze_def donchian_analyze_def
        trendline_analyze_def Let_def)

theorem analyze_short_series_witness:
  "length rising_bars < min_bars (LinearRegressionStrategy 25 0.5) 60 default_kwargs
   \<and> analyze no_ta (LinearRegressionStrategy 25 0.5) rising_bars 60 default_kwargs
       = Inr (ErrorResult 70 13)
   \<and> length rising_bars < min_bars (TrendlineStrategy 5) 60 default_kwargs
   \<and> analyze no_ta (TrendlineStrategy 5) rising_bars 60 default_kwargs
       = Inr (ErrorResult 60 13)"
  using analyze_short_series [of rising_bars "LinearRegressionStrategy 25 0.5" 60 default_kwargs no_ta]
    analyze_short_series [of rising_bars "TrendlineStrategy 5" 60 default_kwargs no_ta]
  by (simp add: len_rising default_kwargs_def kwargs_get_def)

section \<open>The registry\<close>

text \<open>
  Without construction parameters the registry never raises: it returns one default instance
  per registered name, in the order asked for, reports every other name, and takes the four
  default names when the list is empty or omitted.
\<close>

lemma registry_lookup:
  "map_of ALL_STRATEGIES n =
     (if n = ''regression'' then Some new_regression
      else if n = ''bollinger'' then Some new_bollinger
      else if n = ''donchian'' then Some new_donchian
      else if n = ''trendline'' then Some new_trendline
      else None)"
  by (simp add: ALL_STRATEGIES_def)

lemma registry_no_kwargs:
  "recognised n \<Longrightarrow> \<exists>cls. map_of ALL_STRATEGIES n = Some cls \<and> cls no_kwargs = Inr (default_instance n)"
  "\<not> recognised n \<Longrightarrow> map_of ALL_STRATEGIES n = None"
  by (auto simp: registry_lookup recognised_def DEFAULT_STRATEGY_NAMES_def default_instance_def
      new_regression_def new_bollinger_def new_donchian_def new_trendline_def no_kwargs_def
      kwargs_get_def)

lemma get_strategies_loop_no_kwargs:
  "get_strategies_loop ns no_kwargs (ss, ws) =
     Inr (ss @ map default_instance (filter recognised (map normalise ns)),
          ws @ filter (\<lambda>n. \<not> recognised n) (map normalise ns))"
proof (induction ns arbitrary: ss ws)
  case Nil
  then show ?case by simp
next
  case (Cons n ns)
  show ?case
  proof (cases "recognised (normalise n)")
    case True
    then obtain cls where "map_of ALL_STRATEGIES (normalise n) = Some cls"
        "cls no_kwargs = Inr (default_instance (normalise n))"
      using registry_no_kwargs(1) by blast
    then show ?thesis
      using True Cons by (simp add: Let_def normalise_def [symmetric])
  next
    case False
    then have "map_of ALL_STRATEGIES (normalise n) = None"
      by (rule registry_no_kwargs(2))
    then show ?thesis
      using False Cons by (simp add: Let_def normalise_def [symmetric])
  qed
qed

lemma get_strategies_no_kwargs:
  "get_strategies (Some ns) no_kwargs =
     (if ns = [] then Inr (map default_instance DEFAULT_STRATEGY_NAMES, [])
      else Inr (map default_instance (filter recognised (map normalise ns)),
                filter (\<lambda>n. \<not> recognised n) (map normalise ns)))"
  "get_strategies None no_kwargs = Inr (map default_instance DEFAULT_STRATEGY_NAMES, [])"
proof -
  have d: "map normalise DEFAULT_STRATEGY_NAMES = DEFAULT_STRATEGY_NAMES"
    by (simp add: DEFAULT_STRATEGY_NAMES_def normalise_def py_strip_def py_lower_def
        lower_char_def is_space_def)
  have r: "filter recognised DEFAULT_STRATEGY_NAMES = DEFAULT_STRATEGY_NAMES"
      "filter (\<lambda>n. \<not> recognised n) DEFAULT_STRATEGY_NAMES = []"
    by (simp_all add: recognised_def)
  show "get_strategies (Some ns) no_kwargs =
     (if ns = [] then Inr (map default_instance DEFAULT_STRATEGY_NAMES, [])
      else Inr (map default_instance (filter recognised (map normalise ns)),
                filter (\<lambda>n. \<not> recognised n) (map normalise ns)))"
    by (simp add: get_strategies_def get_strategies_loop_no_kwargs d r)
  show "get_strategies None no_kwargs = Inr (map default_instance DEFAULT_STRATEGY_NAMES, [])"
    by (simp add: get_strategies_def get_strategies_loop_no_kwargs d r)
qed

text \<open>
  C9, at the failing input. \<open>get_strategies\<close> hands every keyword to every constructor,
  so with the default list of all four strategies the keyword \<open>bb_period\<close>, which only
  the Bollinger class declares, makes the regression constructor raise a TypeError.
\<close>

theorem get_strategies_foreign_keyword:
  "get_strategies None (no_kwargs\<lparr>ck_bb_period := Some 30\<rparr>) = Inl TypeError"
  by (simp add: get_strategies_def DEFAULT_STRATEGY_NAMES_def ALL_STRATEGIES_def
      py_strip_def py_lower_def lower_char_def is_space_def new_regression_def no_kwargs_def Let_def)

section \<open>The cross label\<close>

lemma tail_map: "tail n (map f xs) = map f (tail n xs)"
  by (simp add: tail_def drop_map)

lemma length_tail: "length (tail n xs) = min n (length xs)"
  by (simp add: tail_def)

lemma rolling_mean_last_sma:
  "df \<noteq> [] \<Longrightarrow> rolling_mean_last w (map close df) = Inr (sma w df)"
  by (auto simp: rolling_mean_last_def sma_def mean_def tail_map length_tail)

lemma calc_sma_cross_label:
  "df \<noteq> [] \<Longrightarrow>
     \<exists>s l. calc_sma_cross df short long = Inr (s, l, sma_cross_rule (sma short df) (sma long df))"
  by (simp add: calc_sma_cross_def rolling_mean_last_sma sma_cross_rule_def
      split: option.splits)

lemma regression_sma_cross:
  assumes "regression_analyze adx_ind adx_thr r2_thr df lookback kwargs = Inr (ChannelResult r)"
  shows "sma_cross r = sma_cross_rule (sma (kwargs_get (kw_sma_short kwargs) 20) df)
                         (sma (kwargs_get (kw_sma_long kwargs) 60) df)"
proof -
  let ?short = "kwargs_get (kw_sma_short kwargs) 20"
  let ?long = "kwargs_get (kw_sma_long kwargs) 60"
  have len: "\<not> length df < max lookback (?long + 10)"
    using assms by (auto simp: regression_analyze_def Let_def)
  then have ne: "df \<noteq> []" by auto
  obtain s l where c: "calc_sma_cross df ?short ?long
      = Inr (s, l, sma_cross_rule (sma ?short df) (sma ?long df))"
    using calc_sma_cross_label [OF ne] by blast
  show ?thesis
    using assms len
    by (auto simp: regression_analyze_def Let_def c split: sum.splits)
qed

text \<open>
  C8, as stated, fails for the trendline variant: on the rising sample both moving averages
  are defined and the short one is above the long one, yet the field \<open>sma_cross\<close> of the
  result holds the insufficient-pivots label.
\<close>

theorem sma_cross_field_counterexample:
  "map_option sma_cross
     (analysis_of (analyze no_ta (TrendlineStrategy 2) rising_bars 5 sma_kwargs))
     = Some PivotsInsufficient
   \<and> sma 2 rising_bars = Some 1961.5 \<and> sma 3 rising_bars = Some 1961
   \<and> sma_cross_rule (sma 2 rising_bars) (sma 3 rising_bars) = SmaBullish"
proof -
  have e: "trendline_analyze no_ta 2 rising_bars 5 sma_kwargs
   = Inr (ChannelResult
       \<lparr>strategy_name = TrendlineName, channel_type = CHANNEL_SIDEWAYS,
        current_price = 1962, upper_band = 1962.46, lower_band = 1957.54, center = 1960,
        position_pct = 50, sma_cross = PivotsInsufficient, details = PivotNote 0 0\<rparr>)"
    by (simp add: trendline_analyze_def rising_bars_def price_bar_def sma_kwargs_def
      default_kwargs_def kwargs_get_def tail_def Let_def find_pivots_def is_pivot_def slice_def
      np_max_def np_min_def last_item_def mean_def py_round_def round_half_even_def upt_rec)
  have m: "sma 2 rising_bars = Some 1961.5" "sma 3 rising_bars = Some 1961"
    by (simp_all add: sma_def rising_bars_def price_bar_def tail_def)
  show ?thesis
    by (simp add: e m analysis_of_def sma_cross_rule_def)
qed

section \<open>Pivots and the trendline variant\<close>

lemma slice_nth: "j \<le> length xs \<Longrightarrow> slice i j xs = map ((!) xs) [i..<j]"
  by (auto simp: slice_def intro!: nth_equalityI)

lemma np_max_Max: "xs \<noteq> [] \<Longrightarrow> np_max xs = Inr (Max (set xs))"
proof (cases xs)
  case Nil
  assume "xs \<noteq> []"
  with Nil show ?thesis by simp
next
  case (Cons a list)
  show ?thesis
    using Max.set_eq_fold [of a list] by (simp add: np_max_def Cons)
qed

lemma np_min_Min: "xs \<noteq> [] \<Longrightarrow> np_min xs = Inr (Min (set xs))"
proof (cases xs)
  case Nil
  assume "xs \<noteq> []"
  with Nil show ?thesis by simp
next
  case (Cons a list)
  show ?thesis
    using Min.set_eq_fold [of a list] by (simp add: np_min_def Cons)
qed

lemma np_max_slice:
  assumes "i < j" "j \<le> length vals"
  shows "\<exists>m. np_max (slice i j vals) = Inr m \<and> (\<forall>v. m \<le> v \<longleftrightarrow> (\<forall>k \<in> {i..<j}. vals ! k \<le> v))"
proof -
  have s: "slice i j vals = map ((!) vals) [i..<j]" using assms by (simp add: slice_nth)
  have ne: "slice i j vals \<noteq> []" using assms by (simp add: s)
  have "Max (set (slice i j vals)) \<le> v \<longleftrightarrow> (\<forall>k \<in> {i..<j}. vals ! k \<le> v)" for v
    using ne by (subst Max_le_iff) (auto simp: s)
  then show ?thesis using np_max_Max [OF ne] by blast
qed

lemma np_min_slice:
  assumes "i < j" "j \<le> length vals"
  shows "\<exists>m. np_min (slice i j vals) = Inr m \<and> (\<forall>v. v \<le> m \<longleftrightarrow> (\<forall>k \<in> {i..<j}. v \<le> vals ! k))"
proof -
  have s: "slice i j vals = map ((!) vals) [i..<j]" using assms by (simp add: slice_nth)
  have ne: "slice i j vals \<noteq> []" using assms by (simp add: s)
  have "v \<le> Min (set (slice i j vals)) \<longleftrightarrow> (\<forall>k \<in> {i..<j}. v \<le> vals ! k)" for v
    using ne by (subst Min_ge_iff) (auto simp: s)
  then show ?thesis using np_min_Min [OF ne] by blast
qed

lemma is_pivot_high:
  assumes "0 < w" "w \<le> i" "i + w < length vals"
  shows "is_pivot ModeHigh vals w i = Inr (pivot_high_at vals w i)"
proof -
  obtain ml where l: "np_max (slice (i - w) i vals) = Inr ml"
      "\<And>v. ml \<le> v \<longleftrightarrow> (\<forall>k \<in> {i - w..<i}. vals ! k \<le> v)"
    using np_max_slice [of "i - w" i vals] assms by auto
  obtain mr where r: "np_max (slice (i + 1) (i + w + 1) vals) = Inr mr"
      "\<And>v. mr \<le> v \<longleftrightarrow> (\<forall>k \<in> {i + 1..<i + w + 1}. vals ! k \<le> v)"
    using np_max_slice [of "i + 1" "i + w + 1" vals] assms by auto
  show ?thesis
    unfolding is_pivot_def Let_def pivot_high_at_def
    by (simp only: l r sum.case pivot_mode.case if_distrib [of Inr] split: if_splits) simp
qed

lemma is_pivot_low:
  assumes "0 < w" "w \<le> i" "i + w < length vals"
  shows "is_pivot ModeLow vals w i = Inr (pivot_low_at vals w i)"
proof -
  obtain ml where l: "np_min (slice (i - w) i vals) = Inr ml"
      "\<And>v. v \<le> ml \<longleftrightarrow> (\<forall>k \<in> {i - w..<i}. v \<le> vals ! k)"
    using np_min_slice [of "i - w" i vals] assms by auto
  obtain mr where r: "np_min (slice (i + 1) (i + w + 1) vals) = Inr mr"
      "\<And>v. v \<le> mr \<longleftrightarrow> (\<forall>k \<in> {i + 1..<i + w + 1}. v \<le> vals ! k)"
    using np_min_slice [of "i + 1" "i + w + 1" vals] assms by auto
  show ?thesis
    unfolding is_pivot_def Let_def pivot_low_at_def
    by (simp only: l r sum.case pivot_mode.case if_distrib [of Inr] split: if_splits) simp
qed

lemma find_pivots_loop_high:
  assumes "0 < w" "\<forall>i \<in> set is. w \<le> i \<and> i + w < length vals"
  shows "find_pivots_loop ModeHigh vals w is (idx, pv)
         = Inr (idx @ filter (pivot_high_at vals w) is,
                pv @ map ((!) vals) (filter (pivot_high_at vals w) is))"
  using assms
  by (induction "is" arbitrary: idx pv) (simp_all add: is_pivot_high)

lemma find_pivots_loop_low:
  assumes "0 < w" "\<forall>i \<in> set is. w \<le> i \<and> i + w < length vals"
  shows "find_pivots_loop ModeLow vals w is (idx, pv)
         = Inr (idx @ filter (pivot_low_at vals w) is,
                pv @ map ((!) vals) (filter (pivot_low_at vals w) is))"
  using assms
  by (induction "is" arbitrary: idx pv) (simp_all add: is_pivot_low)

lemma find_pivots_high:
  "0 < w \<Longrightarrow> find_pivots vals w ModeHigh
     = Inr (pivot_highs vals w, map ((!) vals) (pivot_highs vals w))"
  unfolding find_pivots_def pivot_highs_def
  by (subst find_pivots_loop_high) auto

lemma find_pivots_low:
  "0 < w \<Longrightarrow> find_pivots vals w ModeLow
     = Inr (pivot_lows vals w, map ((!) vals) (pivot_lows vals w))"
  unfolding find_pivots_def pivot_lows_def
  by (subst find_pivots_loop_low) auto

lemma increasing_no_pivot_high:
  assumes "sorted_wrt (<) vals" "0 < w"
  shows "pivot_highs vals w = []"
proof -
  have "\<not> pivot_high_at vals w i" if "i \<in> set [w..<length vals - w]" for i
  proof -
    have "i + 1 < length vals" using that assms by auto
    then have "vals ! i < vals ! (i + 1)"
      using assms(1) by (simp add: sorted_wrt_nth_less)
    moreover have "i + 1 \<in> {i + 1..<i + w + 1}" using assms by simp
    ultimately show ?thesis unfolding pivot_high_at_def by (meson not_le)
  qed
  then show ?thesis by (simp add: pivot_highs_def filter_empty_conv)
qed

lemma increasing_no_pivot_low:
  assumes "sorted_wrt (<) vals" "0 < w"
  shows "pivot_lows vals w = []"
proof -
  have "\<not> pivot_low_at vals w i" if "i \<in> set [w..<length vals - w]" for i
  proof -
    have i: "w \<le> i" "i < length vals" using that by auto
    then have "vals ! (i - 1) < vals ! i"
      using assms by (simp add: sorted_wrt_nth_less)
    moreover have "i - 1 \<in> {i - w..<i}" using assms i by auto
    ultimately show ?thesis unfolding pivot_low_at_def by (meson not_le)
  qed
  then show ?thesis by (simp add: pivot_lows_def filter_empty_conv)
qed

lemma trendline_few_pivots:
  assumes lb: "0 < lookback" "lookback \<le> length df"
    and w: "0 < kwargs_get (kw_pivot_window kwargs) w0"
    and few: "length (pivot_highs (window_highs df lookback) (kwargs_get (kw_pivot_window kwargs) w0)) < 3
         \<or> length (pivot_lows (window_lows df lookback) (kwargs_get (kw_pivot_window kwargs) w0)) < 3"
  shows "trendline_analyze ta w0 df lookback kwargs =
     Inr (ChannelResult
       \<lparr>strategy_name = TrendlineName,
        channel_type = CHANNEL_SIDEWAYS,
        current_price = py_round (close (last df)) 2,
        upper_band = py_round (Max (set (window_highs df lookback))) 2,
        lower_band = py_round (Min (set (window_lows df lookback))) 2,
        center = py_round (mean (map close (tail lookback df))) 2,
        position_pct = 50,
        sma_cross = PivotsInsufficient,
        details = PivotNote
          (length (pivot_highs (window_highs df lookback) (kwargs_get (kw_pivot_window kwargs) w0)))
          (length (pivot_lows (window_lows df lookback) (kwargs_get (kw_pivot_window kwargs) w0)))\<rparr>)"
proof -
  have ne: "tail lookback df \<noteq> []" using lb by (auto simp: tail_def)
  have lst: "last (tail lookback df) = last df" using ne by (simp add: tail_def)
  have cl: "last_item (map close (tail lookback df)) = Inr (close (last df))"
    using ne by (simp add: last_item_def last_map lst)
  have hn: "map high (tail lookback df) \<noteq> []" and ln: "map low (tail lookback df) \<noteq> []"
    using ne by simp_all
  show ?thesis
    using lb few
    unfolding trendline_analyze_def Let_def window_highs_def window_lows_def
    by (simp add: find_pivots_high [OF w] find_pivots_low [OF w] cl
        np_max_Max [OF hn] np_min_Min [OF ln])
qed

text \<open>
  C7, as stated, fails on the bounds: the result holds the maximum high and the minimum low
  rounded to two decimals, not the values themselves.
\<close>

theorem trendline_bounds_counterexample:
  "length (pivot_highs (window_highs rising_bars 5) 2) < 3
   \<and> map_option upper_band
        (analysis_of (analyze no_ta (TrendlineStrategy 2) rising_bars 5 default_kwargs))
       = Some 1962.46
   \<and> Max (set (window_highs rising_bars 5)) = 1962.456
   \<and> map_option lower_band
        (analysis_of (analyze no_ta (TrendlineStrategy 2) rising_bars 5 default_kwargs))
       = Some 1957.54
   \<and> Min (set (window_lows rising_bars 5)) = 1957.544"
proof -
  have ph: "pivot_highs (window_highs rising_bars 5) 2 = []"
    by (simp add: increasing_no_pivot_high rising_window_highs)
  have e: "trendline_analyze no_ta 2 rising_bars 5 default_kwargs
   = Inr (ChannelResult
       \<lparr>strategy_name = TrendlineName, channel_type = CHANNEL_SIDEWAYS,
        current_price = 1962, upper_band = 1962.46, lower_band = 1957.54, center = 1960,
        position_pct = 50, sma_cross = PivotsInsufficient, details = PivotNote 0 0\<rparr>)"
    by (simp add: trendline_analyze_def rising_bars_def price_bar_def
      default_kwargs_def kwargs_get_def tail_def Let_def find_pivots_def is_pivot_def slice_def
      np_max_def np_min_def last_item_def mean_def py_round_def round_half_even_def upt_rec)
  have c1: "length (pivot_highs (window_highs rising_bars 5) 2) < 3"
    by (simp add: ph)
  have c2: "Max (set (window_highs rising_bars 5)) = 1962.456"
      "Min (set (window_lows rising_bars 5)) = 1957.544"
    by (simp_all add: rising_window_highs rising_window_lows)
  have c3: "map_option upper_band
        (analysis_of (analyze no_ta (TrendlineStrategy 2) rising_bars 5 default_kwargs))
       = Some 1962.46"
      "map_option lower_band
        (analysis_of (analyze no_ta (TrendlineStrategy 2) rising_bars 5 default_kwargs))
       = Some 1957.54"
    by (simp_all add: e analysis_of_def)
  from c1 c2 c3 show ?thesis by blast
qed

text \<open>
  C7, amended. For a positive lookback, a series of at least that many bars and a positive
  pivot window: if the lookback tail has fewer than three pivot highs or fewer than three
  pivot lows under the symmetric window test, the trendline variant returns the Sideways
  result whose upper band is the maximum high of the tail rounded to two decimals, whose
  lower band is the minimum low of the tail rounded to two decimals, whose position is 50 and
  whose details are the insufficient-pivots note with the two pivot counts. A tail whose
  highs or whose lows rise strictly has no pivot of that kind, so it is such a case.
\<close>

theorem trendline_insufficient_pivots:
  assumes "0 < lookback" and "lookback \<le> length df"
    and "0 < kwargs_get (kw_pivot_window kwargs) w0"
  shows
    "(let w = kwargs_get (kw_pivot_window kwargs) w0;
          highs = window_highs df lookback; lows = window_lows df lookback;
          few = (length (pivot_highs highs w) < 3 \<or> length (pivot_lows lows w) < 3)
      in (sorted_wrt (<) highs \<or> sorted_wrt (<) lows \<longrightarrow> few)
         \<and> (few \<longrightarrow>
              analyze ta (TrendlineStrategy w0) df lookback kwargs =
                Inr (ChannelResult
                  \<lparr>strategy_name = TrendlineName,
                   channel_type = CHANNEL_SIDEWAYS,
                   current_price = py_round (close (last df)) 2,
                   upper_band = py_round (Max (set highs)) 2,
                   lower_band = py_round (Min (set lows)) 2,
                   center = py_round (mean (map close (tail lookback df))) 2,
                   position_pct = 50,
                   sma_cross = PivotsInsufficient,
                   details = PivotNote (length (pivot_highs highs w))
                               (length (pivot_lows lows w))\<rparr>)))"
proof -
  let ?w = "kwargs_get (kw_pivot_window kwargs) w0"
  have inc: "sorted_wrt (<) (window_highs df lookback) \<or> sorted_wrt (<) (window_lows df lookback)
      \<longrightarrow> length (pivot_highs (window_highs df lookback) ?w) < 3
          \<or> length (pivot_lows (window_lows df lookback) ?w) < 3"
    using increasing_no_pivot_high [of "window_highs df lookback" ?w]
      increasing_no_pivot_low [of "window_lows df lookback" ?w] assms(3)
    by auto
  show ?thesis
    unfolding Let_def
    using inc trendline_few_pivots [OF assms(1) assms(2) assms(3), of ta]
    by simp
qed

theorem trendline_insufficient_pivots_witness:
  "(0::nat) < 5 \<and> 5 \<le> length rising_bars
   \<and> 0 < kwargs_get (kw_pivot_window default_kwargs) (2::nat)
   \<and> sorted_wrt (<) (window_highs rising_bars 5)
   \<and> length (pivot_highs (window_highs rising_bars 5) 2) < 3
   \<and> analyze no_ta (TrendlineStrategy 2) rising_bars 5 default_kwargs =
        Inr (ChannelResult
          \<lparr>strategy_name = TrendlineName, channel_type = CHANNEL_SIDEWAYS,
           current_price = 1962, upper_band = 1962.46, lower_band = 1957.54, center = 1960,
           position_pct = 50, sma_cross = PivotsInsufficient, details = PivotNote 0 0\<rparr>)"
proof -
  have h: "(0::nat) < 5" "5 \<le> length rising_bars"
      "0 < kwargs_get (kw_pivot_window default_kwargs) (2::nat)"
    by (simp_all add: len_rising default_kwargs_def kwargs_get_def)
  have s: "sorted_wrt (<) (window_highs rising_bars 5)"
    by (simp add: rising_window_highs)
  have w: "kwargs_get (kw_pivot_window default_kwargs) (2::nat) = 2"
    by (simp add: default_kwargs_def kwargs_get_def)
  have ph: "pivot_highs (window_highs rising_bars 5) 2 = []"
    using s by (simp add: increasing_no_pivot_high)
  have pl: "pivot_lows (window_lows rising_bars 5) 2 = []"
    by (simp add: increasing_no_pivot_low rising_window_lows)
  have v: "py_round (close (last rising_bars)) 2 = 1962"
      "py_round (mean (map close (tail 5 rising_bars))) 2 = 1960"
    by (simp_all add: rising_bars_def price_bar_def
        tail_def mean_def py_round_def round_half_even_def)
  have v2: "py_round (Max (set (window_highs rising_bars 5))) 2 = 1962.46"
      "py_round (Min (set (window_lows rising_bars 5))) 2 = 1957.54"
    by (simp_all add: rising_window_highs rising_window_lows py_round_def round_half_even_def)
  show ?thesis
    using h s trendline_insufficient_pivots [OF h, of no_ta]
    by (simp add: Let_def w ph pl v v2)
qed

section \<open>The regression variant\<close>










lemma py_round_one: "py_round 1 n = 1"
  by (simp add: py_round_def round_half_even_def)



lemma reg_eval_default:
  "regression_analyze (\<lambda>_. None) 25 0.5 rising_bars 3 sma_kwargs
   = Inr (ChannelResult
       \<lparr>strategy_name = RegressionName, channel_type = CHANNEL_TRANSITION,
        current_price = 1962, upper_band = 1962, lower_band = 1962, center = 1962,
        position_pct = 50, sma_cross = SmaBullish,
        details = RegressionDetails 1 0.051 1 0 (Some 1961.5) (Some 1961) 0\<rparr>)"
  by (simp add: regression_analyze_def rising_bars_def price_bar_def sma_kwargs_def
      default_kwargs_def kwargs_get_def tail_def Let_def arange_def polyfit_def polyval_def
      mean_def r_squared_of_def np_std_def calc_adx_def calc_sma_cross_def
      rolling_mean_last_def regression_channel_type_def calc_position_pct_def
      py_round_def round_half_even_def upt_rec power2_eq_square)

section \<open>Resampling\<close>

lemma bin_index_mono:
  "0 < rule \<Longrightarrow> t \<le> t' \<Longrightarrow> bin_index origin rule t \<le> bin_index origin rule t'"
  by (simp add: bin_index_def zdiv_mono1)

lemma bin_index_iff:
  assumes "0 < rule"
  shows "bin_index origin rule t = k
         \<longleftrightarrow> origin + k * int rule \<le> t \<and> t < origin + k * int rule + int rule"
proof
  let ?w = "int rule"
  have w: "0 < ?w" using assms by simp
  assume "bin_index origin rule t = k"
  then have k: "k = (t - origin) div ?w" by (simp add: bin_index_def)
  have "t - origin = ?w * ((t - origin) div ?w) + (t - origin) mod ?w" by simp
  moreover have "0 \<le> (t - origin) mod ?w" and "(t - origin) mod ?w < ?w"
    using w by simp_all
  ultimately show "origin + k * ?w \<le> t \<and> t < origin + k * ?w + ?w"
    unfolding k by (smt (verit) mult.commute)
next
  let ?w = "int rule"
  have w: "0 < ?w" using assms by simp
  assume a: "origin + k * ?w \<le> t \<and> t < origin + k * ?w + ?w"
  define r where "r = t - origin - k * ?w"
  have r: "0 \<le> r" "r < ?w" using a by (simp_all add: r_def)
  have "t - origin = r + k * ?w" by (simp add: r_def)
  then have "(t - origin) div ?w = (r + k * ?w) div ?w" by simp
  also have "\<dots> = k" using r w by (simp add: div_pos_pos_trivial)
  finally show "bin_index origin rule t = k" by (simp add: bin_index_def)
qed

lemma fold_min_Min: "fold min xs (x::int) = Min (set (x # xs))"
  by (simp only: Min.set_eq_fold)

lemma fold_max_Max: "fold max xs (x::int) = Max (set (x # xs))"
  by (simp only: Max.set_eq_fold)

lemma aggregate_nonempty:
  "rows \<noteq> [] \<Longrightarrow>
     aggregate t rows =
       \<lparr>agg_time = t, agg_open = Some (open_price (hd rows)),
        agg_high = Some (Max (set (map high rows))), agg_low = Some (Min (set (map low rows))),
        agg_close = Some (close (last rows)), agg_volume = sum_list (map volume rows)\<rparr>"
  by (cases rows) (simp_all add: aggregate_def Max.set_eq_fold Min.set_eq_fold del: set_simps list.set)

lemma dropna_aggregate:
  "dropna (map (\<lambda>k. aggregate (t k) (rows k)) ks)
   = map (\<lambda>k. bar_of_rows (t k) (rows k)) (filter (\<lambda>k. rows k \<noteq> []) ks)"
proof (induction ks)
  case Nil
  then show ?case by (simp add: dropna_def map_filter_simps)
next
  case (Cons k ks)
  show ?case
  proof (cases "rows k = []")
    case True
    then show ?thesis
      using Cons by (simp add: dropna_def map_filter_simps aggregate_def)
  next
    case False
    then show ?thesis
      using Cons by (simp add: dropna_def map_filter_simps aggregate_nonempty bar_of_rows_def)
  qed
qed

lemma sum_list_indicator:
  fixes c :: int
  assumes "distinct ks" "k0 \<in> set ks"
  shows "(\<Sum>k\<leftarrow>ks. if k0 = k then c else 0) = c"
  using assms
proof (induction ks)
  case Nil
  then show ?case by simp
next
  case (Cons k ks)
  show ?case
  proof (cases "k0 = k")
    case True
    then have "k0 \<notin> set ks" using Cons.prems by simp
    then have "(\<Sum>k\<leftarrow>ks. if k0 = k then c else 0) = 0"
      by (induction ks) auto
    then show ?thesis using True by simp
  next
    case False
    then show ?thesis using Cons by auto
  qed
qed

lemma sum_list_partition:
  fixes f :: "'a \<Rightarrow> int"
  assumes "distinct ks" "\<forall>x \<in> set xs. key x \<in> set ks"
  shows "(\<Sum>k\<leftarrow>ks. sum_list (map f (filter (\<lambda>x. key x = k) xs))) = sum_list (map f xs)"
  using assms(2)
proof (induction xs)
  case Nil
  then show ?case by simp
next
  case (Cons x xs)
  have "(\<Sum>k\<leftarrow>ks. sum_list (map f (filter (\<lambda>y. key y = k) (x # xs))))
        = (\<Sum>k\<leftarrow>ks. (if key x = k then f x else 0)
             + sum_list (map f (filter (\<lambda>y. key y = k) xs)))"
    by (rule arg_cong [where f = sum_list]) (auto intro!: map_cong)
  also have "\<dots> = (\<Sum>k\<leftarrow>ks. if key x = k then f x else 0)
        + (\<Sum>k\<leftarrow>ks. sum_list (map f (filter (\<lambda>y. key y = k) xs)))"
    by (simp add: sum_list_addf)
  also have "(\<Sum>k\<leftarrow>ks. if key x = k then f x else 0) = f x"
    using sum_list_indicator [of ks "key x" "f x"] assms(1) Cons.prems by simp
  finally show ?case using Cons by simp
qed

lemma sum_list_skip_empty:
  "(\<Sum>k\<leftarrow>filter (\<lambda>k. g k \<noteq> []) ks. sum_list (map f (g k)))
   = (\<Sum>k\<leftarrow>ks. sum_list (map f (g k)))" for f :: "'a \<Rightarrow> int"
  by (induction ks) auto

lemma resample_unfold:
  assumes "0 < rule" "df \<noteq> []"
  shows "resample df rule =
     Some (map (\<lambda>k. bar_of_rows (start_day (Min (set (map time df))) + k * int rule)
                   (bin_rows (start_day (Min (set (map time df)))) rule df k))
            (filter (\<lambda>k. bin_rows (start_day (Min (set (map time df)))) rule df k \<noteq> [])
               [bin_index (start_day (Min (set (map time df)))) rule (Min (set (map time df)))
                ..bin_index (start_day (Min (set (map time df)))) rule (Max (set (map time df)))]))"
proof -
  obtain b bs where df: "df = b # bs" using assms(2) by (cases df) auto
  have mn: "fold min (map time bs) (time b) = Min (set (map time df))"
    unfolding df by (simp only: list.map Min.set_eq_fold)
  have mx: "fold max (map time bs) (time b) = Max (set (map time df))"
    unfolding df by (simp only: list.map Max.set_eq_fold)
  have "resample df rule =
     Some (dropna (map (\<lambda>k. aggregate (start_day (Min (set (map time df))) + k * int rule)
                   (bin_rows (start_day (Min (set (map time df)))) rule df k))
        [bin_index (start_day (Min (set (map time df)))) rule (Min (set (map time df)))
         ..bin_index (start_day (Min (set (map time df)))) rule (Max (set (map time df)))]))"
    using assms(1) unfolding resample_def Let_def mn [symmetric] mx [symmetric]
    by (simp add: df)
  then show ?thesis by (simp only: dropna_aggregate)
qed

text \<open>
  C10. For a non-empty series with strictly increasing times and a positive target interval,
  \<open>_resample\<close> returns a series in which every row is the aggregate of the source rows
  of its bucket (open the first, high the maximum, low the minimum, close the last, volume
  the sum), whose volumes sum to the total source volume, whose largest high is the largest
  source high and whose smallest low is the smallest source low.
\<close>

theorem resample_preserves:
  assumes "0 < rule" and "df \<noteq> []" and "sorted_wrt (<) (map time df)"
  shows "\<exists>out. resample df rule = Some out
           \<and> (\<forall>r \<in> set out. is_aggregate_of r (bucket df rule r))
           \<and> sum_list (map volume out) = sum_list (map volume df)
           \<and> Max (set (map high out)) = Max (set (map high df))
           \<and> Min (set (map low out)) = Min (set (map low df))"
proof -
  define origin where "origin = start_day (Min (set (map time df)))"
  define ks where "ks = [bin_index origin rule (Min (set (map time df)))
                         ..bin_index origin rule (Max (set (map time df)))]"
  define rows where "rows = bin_rows origin rule df"
  define out where "out = map (\<lambda>k. bar_of_rows (origin + k * int rule) (rows k))
                            (filter (\<lambda>k. rows k \<noteq> []) ks)"
  have res: "resample df rule = Some out"
    unfolding out_def rows_def ks_def origin_def by (rule resample_unfold [OF assms(1,2)])
  have dist: "distinct ks" by (simp add: ks_def)
  have inks: "bin_index origin rule (time b) \<in> set ks" if "b \<in> set df" for b
  proof -
    have "Min (set (map time df)) \<le> time b" and "time b \<le> Max (set (map time df))"
      using that by simp_all
    then show ?thesis
      using bin_index_mono [OF assms(1)] by (simp add: ks_def)
  qed
  have rows_sub: "set (rows k) \<subseteq> set df" for k
    by (auto simp: rows_def bin_rows_def)
  have in_rows: "b \<in> set (rows (bin_index origin rule (time b)))" if "b \<in> set df" for b
    using that by (simp add: rows_def bin_rows_def)
  have rows_bucket: "bucket df rule (bar_of_rows (origin + k * int rule) (rows k)) = rows k" for k
    unfolding bucket_def rows_def bin_rows_def
    by (simp add: bar_of_rows_def bin_index_iff [OF assms(1)])
  have agg: "\<forall>r \<in> set out. is_aggregate_of r (bucket df rule r)"
  proof
    fix r assume "r \<in> set out"
    then obtain k where k: "rows k \<noteq> []" "r = bar_of_rows (origin + k * int rule) (rows k)"
      by (auto simp: out_def)
    have "is_aggregate_of r (rows k)"
      using k by (simp add: is_aggregate_of_def bar_of_rows_def)
    then show "is_aggregate_of r (bucket df rule r)"
      by (simp add: k(2) rows_bucket)
  qed
  have vol: "sum_list (map volume out) = sum_list (map volume df)"
  proof -
    have "sum_list (map volume out)
          = (\<Sum>k\<leftarrow>filter (\<lambda>k. rows k \<noteq> []) ks. sum_list (map volume (rows k)))"
      by (simp add: out_def comp_def bar_of_rows_def)
    also have "\<dots> = (\<Sum>k\<leftarrow>ks. sum_list (map volume (rows k)))"
      by (rule sum_list_skip_empty)
    also have "\<dots> = sum_list (map volume df)"
      unfolding rows_def bin_rows_def
      using sum_list_partition [OF dist, of df "\<lambda>b. bin_index origin rule (time b)" volume] inks
      by simp
    finally show ?thesis .
  qed
  have mx: "Max (set (map high out)) = Max (set (map high df))"
  proof (rule Max_eqI)
    show "finite (set (map high out))" by simp
  next
    fix y assume "y \<in> set (map high out)"
    then obtain k where k: "rows k \<noteq> []" "y = Max (set (map high (rows k)))"
      by (auto simp: out_def bar_of_rows_def)
    have "y \<in> set (map high (rows k))"
      unfolding k(2) using k(1) by (intro Max_in) simp_all
    then have "y \<in> set (map high df)" using rows_sub [of k] by auto
    then show "y \<le> Max (set (map high df))" by simp
  next
    have "Max (set (map high df)) \<in> set (map high df)"
      using assms(2) by (intro Max_in) simp_all
    then obtain b where b: "b \<in> set df" "high b = Max (set (map high df))" by auto
    let ?k = "bin_index origin rule (time b)"
    have ne: "rows ?k \<noteq> []" using in_rows [OF b(1)] by auto
    have le: "Max (set (map high (rows ?k))) \<le> Max (set (map high df))"
      using ne rows_sub [of ?k] by (intro Max_mono) auto
    have ge: "high b \<le> Max (set (map high (rows ?k)))"
      using in_rows [OF b(1)] by (intro Max_ge) auto
    have eq: "Max (set (map high (rows ?k))) = Max (set (map high df))"
      using le ge b(2) by simp
    have "?k \<in> set (filter (\<lambda>k. rows k \<noteq> []) ks)" using inks [OF b(1)] ne by simp
    then have "high (bar_of_rows (origin + ?k * int rule) (rows ?k)) \<in> set (map high out)"
      unfolding out_def by (simp only: set_map image_eqI)
    then show "Max (set (map high df)) \<in> set (map high out)"
      using eq by (simp add: bar_of_rows_def)
  qed
  have mn: "Min (set (map low out)) = Min (set (map low df))"
  proof (rule Min_eqI)
    show "finite (set (map low out))" by simp
  next
    fix y assume "y \<in> set (map low out)"
    then obtain k where k: "rows k \<noteq> []" "y = Min (set (map low (rows k)))"
      by (auto simp: out_def bar_of_rows_def)
    have "y \<in> set (map low (rows k))"
      unfolding k(2) using k(1) by (intro Min_in) simp_all
    then have "y \<in> set (map low df)" using rows_sub [of k] by auto
    then show "Min (set (map low df)) \<le> y" by simp
  next
    have "Min (set (map low df)) \<in> set (map low df)"
      using assms(2) by (intro Min_in) simp_all
    then obtain b where b: "b \<in> set df" "low b = Min (set (map low df))" by auto
    let ?k = "bin_index origin rule (time b)"
    have ne: "rows ?k \<noteq> []" using in_rows [OF b(1)] by auto
    have ge: "Min (set (map low df)) \<le> Min (set (map low (rows ?k)))"
      using ne rows_sub [of ?k] by (intro Min_antimono) auto
    have le: "Min (set (map low (rows ?k))) \<le> low b"
      using in_rows [OF b(1)] by (intro Min_le) auto
    have eq: "Min (set (map low (rows ?k))) = Min (set (map low df))"
      using le ge b(2) by simp
    have "?k \<in> set (filter (\<lambda>k. rows k \<noteq> []) ks)" using inks [OF b(1)] ne by simp
    then have "low (bar_of_rows (origin + ?k * int rule) (rows ?k)) \<in> set (map low out)"
      unfolding out_def by (simp only: set_map image_eqI)
    then show "Min (set (map low df)) \<in> set (map low out)"
      using eq by (simp add: bar_of_rows_def)
  qed
  from res agg vol mx mn show ?thesis by blast
qed

lemma resample_gap_bars:
  "resample gap_bars 14400 =
     Some [\<lparr>time = 0, open_price = 1950, high = 1953.456, low = 1949.544, close = 1951,
            volume = 300\<rparr>,
           \<lparr>time = 28800, open_price = 1949, high = 1952.456, low = 1948.544, close = 1952,
            volume = 200\<rparr>]"
proof -
  have t: "Min (set (map time gap_bars)) = 0" "Max (set (map time gap_bars)) = 39600"
    by (simp_all add: gap_bars_def price_bar_def)
  have o: "start_day 0 = 0" by (simp add: start_day_def)
  have k: "bin_index 0 14400 0 = 0" "bin_index 0 14400 39600 = 2"
    by (simp_all add: bin_index_def)
  have ks: "[0..2::int] = [0, 1, 2]" by (simp add: upto_rec1)
  have r0: "bin_rows 0 14400 gap_bars 0 = [price_bar 0 1950, price_bar 1 1953, price_bar 2 1951]"
    and r1: "bin_rows 0 14400 gap_bars 1 = []"
    and r2: "bin_rows 0 14400 gap_bars 2 = [price_bar 10 1949, price_bar 11 1952]"
    by (simp_all add: bin_rows_def bin_index_def gap_bars_def price_bar_def)
  have b0: "bar_of_rows 0 [price_bar 0 1950, price_bar 1 1953, price_bar 2 1951]
      = \<lparr>time = 0, open_price = 1950, high = 1953.456, low = 1949.544, close = 1951,
            volume = 300\<rparr>"
    and b2: "bar_of_rows 28800 [price_bar 10 1949, price_bar 11 1952]
      = \<lparr>time = 28800, open_price = 1949, high = 1952.456, low = 1948.544, close = 1952,
            volume = 200\<rparr>"
    by (simp_all add: bar_of_rows_def price_bar_def)
  have ne: "gap_bars \<noteq> []" by (simp add: gap_bars_def)
  have "resample gap_bars 14400 =
     Some (map (\<lambda>k. bar_of_rows (0 + k * int 14400) (bin_rows 0 14400 gap_bars k))
            (filter (\<lambda>k. bin_rows 0 14400 gap_bars k \<noteq> []) [0, 1, 2]))"
    using resample_unfold [of 14400 gap_bars] ne
    by (simp only: t o k ks) simp
  then show ?thesis
    by (simp add: r0 r1 r2 b0 b2)
qed

theorem resample_preserves_witness:
  "(0::nat) < 14400 \<and> gap_bars \<noteq> [] \<and> sorted_wrt (<) (map time gap_bars)
   \<and> resample gap_bars 14400 =
     Some [\<lparr>time = 0, open_price = 1950, high = 1953.456, low = 1949.544, close = 1951,
            volume = 300\<rparr>,
           \<lparr>time = 28800, open_price = 1949, high = 1952.456, low = 1948.544, close = 1952,
            volume = 200\<rparr>]
   \<and> sum_list (map volume gap_bars) = 500
   \<and> Max (set (map high gap_bars)) = 1953.456
   \<and> Min (set (map low gap_bars)) = 1948.544"
proof -
  have h: "(0::nat) < 14400" "gap_bars \<noteq> []" "sorted_wrt (<) (map time gap_bars)"
    by (simp_all add: gap_bars_def price_bar_def)
  have v: "sum_list (map volume gap_bars) = 500"
      "Max (set (map high gap_bars)) = 1953.456" "Min (set (map low gap_bars)) = 1948.544"
    by (simp_all add: gap_bars_def price_bar_def)
  show ?thesis
    using h v resample_gap_bars resample_preserves [OF h] by simp
qed

section \<open>Position within the channel\<close>

lemma position_range: "0 \<le> calc_position_pct p u l \<and> calc_position_pct p u l \<le> 100"
proof -
  let ?c = "max 0 (min 100 (((p - l) / (u - l)) * 100))"
  have "0 \<le> ?c" and "?c \<le> 100" by simp_all
  then have "0 \<le> py_round ?c 1" and "py_round ?c 1 \<le> 100"
    by (simp_all only: py_round_nonneg py_round_1_le_100)
  then show ?thesis
    by (simp add: calc_position_pct_def Let_def)
qed

lemma regression_position:
  "regression_analyze a t1 t2 df lookback kwargs = Inr (ChannelResult r)
   \<Longrightarrow> 0 \<le> position_pct r \<and> position_pct r \<le> 100"
  using position_range
  by (auto simp: regression_analyze_def Let_def split: sum.splits if_splits prod.splits)

lemma bollinger_position:
  "bollinger_analyze ta p d df lookback kwargs = Inr (ChannelResult r)
   \<Longrightarrow> 0 \<le> position_pct r \<and> position_pct r \<le> 100"
  using position_range
  by (auto simp: bollinger_analyze_def Let_def split: sum.splits if_splits)

lemma donchian_position:
  "donchian_analyze ta p df lookback kwargs = Inr (ChannelResult r)
   \<Longrightarrow> 0 \<le> position_pct r \<and> position_pct r \<le> 100"
  using position_range
  by (auto simp: donchian_analyze_def Let_def split: sum.splits if_splits)

lemma trendline_position:
  "trendline_analyze ta w df lookback kwargs = Inr (ChannelResult r)
   \<Longrightarrow> 0 \<le> position_pct r \<and> position_pct r \<le> 100"
  using position_range
  by (auto simp: trendline_analyze_def Let_def split: sum.splits if_splits prod.splits)

lemma analyze_position:
  "analyze ta s df lookback kwargs = Inr (ChannelResult r)
   \<Longrightarrow> 0 \<le> position_pct r \<and> position_pct r \<le> 100"
  by (cases s)
     (simp_all add: regression_position bollinger_position donchian_position trendline_position)

text \<open>
  C1. Whatever the price and the two bands, the position computed by
  \<open>_calc_position_pct\<close> lies between 0 and 100, and it is exactly 50 whenever the upper band
  is not above the lower band. The \<open>position_pct\<close> of every channel result that a variant
  returns lies between 0 and 100 as well.
\<close>

theorem calc_position_pct_bounds:
  "0 \<le> calc_position_pct price upper lower
   \<and> calc_position_pct price upper lower \<le> 100
   \<and> (upper \<le> lower \<longrightarrow> calc_position_pct price upper lower = 50)
   \<and> (analyze ta s df lookback kwargs = Inr (ChannelResult r) \<longrightarrow>
        0 \<le> position_pct r \<and> position_pct r \<le> 100)"
  using position_range [of price upper lower] analyze_position [of ta s df lookback kwargs r]
  by (simp add: calc_position_pct_def)

theorem calc_position_pct_bounds_witness:
  "(1::real) \<le> 2 \<and> calc_position_pct 5 1 2 = 50
   \<and> 0 \<le> calc_position_pct 5 1 2 \<and> calc_position_pct 5 1 2 \<le> 100
   \<and> analyze no_ta (LinearRegressionStrategy 25 2) rising_bars 3 sma_kwargs
     = Inr (ChannelResult
         \<lparr>strategy_name = RegressionName, channel_type = CHANNEL_SIDEWAYS,
          current_price = 1962, upper_band = 1962, lower_band = 1962, center = 1962,
          position_pct = 50, sma_cross = SmaBullish,
          details = RegressionDetails 1 0.051 1 0 (Some 1961.5) (Some 1961) 0\<rparr>)"
proof -
  have e: "analyze no_ta (LinearRegressionStrategy 25 2) rising_bars 3 sma_kwargs
     = Inr (ChannelResult
         \<lparr>strategy_name = RegressionName, channel_type = CHANNEL_SIDEWAYS,
          current_price = 1962, upper_band = 1962, lower_band = 1962, center = 1962,
          position_pct = 50, sma_cross = SmaBullish,
          details = RegressionDetails 1 0.051 1 0 (Some 1961.5) (Some 1961) 0\<rparr>)"
    by (simp add: no_ta_def reg_eval)
  show ?thesis
    using e calc_position_pct_bounds [of 5 1 2 no_ta "LinearRegressionStrategy 25 2"
        rising_bars 3 sma_kwargs]
    by simp
qed

section \<open>What each variant stores under sma_cross\<close>

lemma returned_iff:
  "returned field out = Some c \<longleftrightarrow> (\<exists>r. out = Inr (ChannelResult r) \<and> field r = c)"
  by (auto simp: returned_def analysis_of_def split: sum.splits analysis.splits)

lemma bollinger_label:
  assumes "bollinger_analyze ta p d df lookback kwargs = Inr (ChannelResult r)"
  shows "sma_cross r =
     (if bollinger_mavg (ta_bollinger ta (map close df) (kwargs_get (kw_bb_period kwargs) p)
            (kwargs_get (kw_bb_std kwargs) d)) < close (last df)
      then AboveMiddle else BelowMiddle)"
proof -
  have g: "\<not> length df < kwargs_get (kw_bb_period kwargs) p + 10"
    using assms by (rule_tac ccontr) (simp add: bollinger_analyze_def Let_def)
  then have ne: "df \<noteq> []" by auto
  then have l: "last_item (map close df) = Inr (close (last df))"
    by (simp add: last_item_def last_map)
  show ?thesis
    using assms
    by (auto simp: bollinger_analyze_def Let_def l g split: sum.splits split del: if_split)
qed

lemma donchian_label:
  assumes "donchian_analyze ta p df lookback kwargs = Inr (ChannelResult r)"
  shows "sma_cross r =
     (let dc = ta_donchian ta df (kwargs_get (kw_dc_period kwargs) p);
          upper = donchian_channel_hband dc; lower = donchian_channel_lband dc;
          dist = (if 0 < upper - lower then (upper - close (last df)) / (upper - lower) else 0.5)
      in if dist < 0.1 then NearUpper else if 0.9 < dist then NearLower else InsideChannel)"
proof -
  have g: "\<not> length df < kwargs_get (kw_dc_period kwargs) p + 10"
    using assms by (rule_tac ccontr) (simp add: donchian_analyze_def Let_def)
  then have ne: "df \<noteq> []" by auto
  then have l: "last_item (map close df) = Inr (close (last df))"
    by (simp add: last_item_def last_map)
  show ?thesis
    using assms
    by (auto simp: donchian_analyze_def Let_def l g split: sum.splits split del: if_split)
qed

lemma find_pivots_window_zero:
  "vals \<noteq> [] \<Longrightarrow> find_pivots vals 0 mode = Inl ValueError"
  by (cases mode)
     (simp_all add: find_pivots_def upt_conv_Cons is_pivot_def slice_def np_max_def np_min_def)

lemma trendline_result_window:
  assumes "trendline_analyze ta w0 df lookback kwargs = Inr (ChannelResult r)"
  shows "0 < kwargs_get (kw_pivot_window kwargs) w0 \<and> tail lookback df \<noteq> []"
proof -
  let ?w = "kwargs_get (kw_pivot_window kwargs) w0"
  have g: "\<not> length df < lookback"
    using assms by (rule_tac ccontr) (simp add: trendline_analyze_def Let_def)
  have ne: "tail lookback df \<noteq> []"
  proof
    assume e: "tail lookback df = []"
    have "find_pivots [] ?w mode = Inr ([], [])" for mode
      by (simp add: find_pivots_def)
    then show False
      using assms g by (simp add: trendline_analyze_def Let_def e last_item_def)
  qed
  have "?w \<noteq> 0"
  proof
    assume z: "?w = 0"
    have "find_pivots (map high (tail lookback df)) 0 ModeHigh = Inl ValueError"
      using ne by (simp add: find_pivots_window_zero)
    then show False
      using assms g by (simp add: trendline_analyze_def Let_def z)
  qed
  with ne show ?thesis by simp
qed

lemma trendline_label:
  assumes "trendline_analyze ta w0 df lookback kwargs = Inr (ChannelResult r)"
  shows "sma_cross r =
     (let w = kwargs_get (kw_pivot_window kwargs) w0;
          highs = window_highs df lookback; lows = window_lows df lookback
      in if length (pivot_highs highs w) < 3 \<or> length (pivot_lows lows w) < 3
         then PivotsInsufficient
         else trendline_pattern (pivot_slope highs (pivot_highs highs w))
                (pivot_slope lows (pivot_lows lows w)))"
proof -
  let ?w = "kwargs_get (kw_pivot_window kwargs) w0"
  have w: "0 < ?w" using trendline_result_window [OF assms] by simp
  have g: "\<not> length df < lookback"
    using assms by (rule_tac ccontr) (simp add: trendline_analyze_def Let_def)
  show ?thesis
  proof (cases "length (pivot_highs (window_highs df lookback) ?w) < 3
      \<or> length (pivot_lows (window_lows df lookback) ?w) < 3")
    case True
    then show ?thesis
      using assms g
      unfolding trendline_analyze_def Let_def window_highs_def window_lows_def
      by (auto simp: find_pivots_high [OF w] find_pivots_low [OF w] split: sum.splits)
  next
    case False
    then show ?thesis
      using assms g
      unfolding trendline_analyze_def Let_def window_highs_def window_lows_def pivot_slope_def
      by (auto simp: find_pivots_high [OF w] find_pivots_low [OF w] split: sum.splits)
  qed
qed

lemma pattern_cases:
  "(trendline_pattern hs ls = PatternAscending \<longleftrightarrow> 0 < hs \<and> 0 < ls)
   \<and> (trendline_pattern hs ls = PatternDescending \<longleftrightarrow> hs < 0 \<and> ls < 0)
   \<and> (trendline_pattern hs ls = PatternConverging \<longleftrightarrow> hs < 0 \<and> 0 < ls)
   \<and> (trendline_pattern hs ls = PatternExpanding \<longleftrightarrow> 0 < hs \<and> ls < 0)
   \<and> (trendline_pattern hs ls = PatternUnclear \<longleftrightarrow> hs = 0 \<or> ls = 0)
   \<and> trendline_pattern hs ls \<noteq> PivotsInsufficient"
  by (auto simp: trendline_pattern_def)

lemma proximity_cases:
  fixes upper lower price :: real
  defines "dd \<equiv> (if 0 < upper - lower then (upper - price) / (upper - lower) else 0.5)"
  defines "c \<equiv> (if dd < 0.1 then NearUpper else if 0.9 < dd then NearLower else InsideChannel)"
  shows "(c = NearUpper \<longleftrightarrow> 0 < upper - lower \<and> upper - price < (upper - lower) / 10)
   \<and> (c = NearLower \<longleftrightarrow> 0 < upper - lower \<and> 9 * (upper - lower) / 10 < upper - price)
   \<and> (c = InsideChannel \<longleftrightarrow>
         upper - lower \<le> 0
         \<or> ((upper - lower) / 10 \<le> upper - price \<and> upper - price \<le> 9 * (upper - lower) / 10))"
proof (cases "0 < upper - lower")
  case True
  then have d: "dd = (upper - price) / (upper - lower)" by (simp add: dd_def)
  have a: "dd < 0.1 \<longleftrightarrow> upper - price < (upper - lower) / 10"
    using True unfolding d by (simp add: pos_divide_less_eq)
  have b: "0.9 < dd \<longleftrightarrow> 9 * (upper - lower) / 10 < upper - price"
    using True unfolding d by (simp add: pos_less_divide_eq)
  show ?thesis
    using True unfolding c_def a b by auto
next
  case False
  then have "dd = 0.5" by (simp add: dd_def)
  then show ?thesis using False by (simp add: c_def)
qed

text \<open>
  C8, amended. Of the four variants only the regression variant stores the moving-average
  cross label in \<open>sma_cross\<close>: bullish alignment when both averages are defined and the
  short one exceeds the long one, bearish alignment when both are defined otherwise, and
  insufficient data when either is undefined. The Bollinger variant stores the side of the
  middle band: above when the last close exceeds the middle band, below otherwise. The
  Donchian variant stores the proximity to the bounds: near the upper bound when the channel
  has positive width and the last close is less than a tenth of the width below the upper
  bound, near the lower bound when it is more than nine tenths of the width below it, and
  inside otherwise. The trendline variant stores the insufficient-pivots label when the
  lookback tail has fewer than three pivot highs or fewer than three pivot lows, and
  otherwise the pattern of the slopes of the lines fitted through the pivot highs and the
  pivot lows: ascending when both are positive, descending when both are negative,
  converging when the highs fall and the lows rise, expanding when the highs rise and the
  lows fall, and unclear when either slope is zero.
\<close>

theorem sma_cross_field:
  "returned sma_cross (analyze ta s df lookback kwargs) = Some c \<Longrightarrow>
     (case s of
        LinearRegressionStrategy _ _ \<Rightarrow>
          c = sma_cross_rule (sma (kwargs_get (kw_sma_short kwargs) 20) df)
                (sma (kwargs_get (kw_sma_long kwargs) 60) df)
      | BollingerBandStrategy p d \<Rightarrow>
          (let middle = bollinger_mavg (ta_bollinger ta (map close df)
                          (kwargs_get (kw_bb_period kwargs) p) (kwargs_get (kw_bb_std kwargs) d))
           in (c = AboveMiddle \<longleftrightarrow> middle < close (last df))
              \<and> (c = BelowMiddle \<longleftrightarrow> close (last df) \<le> middle))
      | DonchianChannelStrategy p \<Rightarrow>
          (let dc = ta_donchian ta df (kwargs_get (kw_dc_period kwargs) p);
               width = donchian_channel_hband dc - donchian_channel_lband dc;
               gap = donchian_channel_hband dc - close (last df)
           in (c = NearUpper \<longleftrightarrow> 0 < width \<and> gap < width / 10)
              \<and> (c = NearLower \<longleftrightarrow> 0 < width \<and> 9 * width / 10 < gap)
              \<and> (c = InsideChannel \<longleftrightarrow>
                    width \<le> 0 \<or> (width / 10 \<le> gap \<and> gap \<le> 9 * width / 10)))
      | TrendlineStrategy w0 \<Rightarrow>
          (let w = kwargs_get (kw_pivot_window kwargs) w0;
               highs = window_highs df lookback; lows = window_lows df lookback;
               few = (length (pivot_highs highs w) < 3 \<or> length (pivot_lows lows w) < 3);
               hs = pivot_slope highs (pivot_highs highs w);
               ls = pivot_slope lows (pivot_lows lows w)
           in (c = PivotsInsufficient \<longleftrightarrow> few)
              \<and> (c = PatternAscending \<longleftrightarrow> \<not> few \<and> 0 < hs \<and> 0 < ls)
              \<and> (c = PatternDescending \<longleftrightarrow> \<not> few \<and> hs < 0 \<and> ls < 0)
              \<and> (c = PatternConverging \<longleftrightarrow> \<not> few \<and> hs < 0 \<and> 0 < ls)
              \<and> (c = PatternExpanding \<longleftrightarrow> \<not> few \<and> 0 < hs \<and> ls < 0)
              \<and> (c = PatternUnclear \<longleftrightarrow> \<not> few \<and> (hs = 0 \<or> ls = 0))))"
proof -
  assume "returned sma_cross (analyze ta s df lookback kwargs) = Some c"
  then obtain r where r: "analyze ta s df lookback kwargs = Inr (ChannelResult r)"
    and c: "c = sma_cross r"
    by (auto simp: returned_iff)
  show ?thesis
  proof (cases s)
    case (LinearRegressionStrategy a b)
    then show ?thesis using r c by (simp add: regression_sma_cross)
  next
    case (BollingerBandStrategy p d)
    then have "bollinger_analyze ta p d df lookback kwargs = Inr (ChannelResult r)"
      using r by simp
    from bollinger_label [OF this] show ?thesis
      unfolding BollingerBandStrategy c by (auto simp: Let_def)
  next
    case (DonchianChannelStrategy p)
    then have "donchian_analyze ta p df lookback kwargs = Inr (ChannelResult r)"
      using r by simp
    from donchian_label [OF this] show ?thesis
      unfolding DonchianChannelStrategy c Let_def strategy.case
      using proximity_cases
        [of "donchian_channel_hband (ta_donchian ta df (kwargs_get (kw_dc_period kwargs) p))"
            "donchian_channel_lband (ta_donchian ta df (kwargs_get (kw_dc_period kwargs) p))"
            "close (last df)"]
      by simp
  next
    case (TrendlineStrategy w0)
    then have "trendline_analyze ta w0 df lookback kwargs = Inr (ChannelResult r)"
      using r by simp
    from trendline_label [OF this] show ?thesis
      unfolding TrendlineStrategy c Let_def strategy.case
      using pattern_cases
        [of "pivot_slope (window_highs df lookback)
               (pivot_highs (window_highs df lookback) (kwargs_get (kw_pivot_window kwargs) w0))"
            "pivot_slope (window_lows df lookback)
               (pivot_lows (window_lows df lookback) (kwargs_get (kw_pivot_window kwargs) w0))"]
      by (simp split: if_splits)
  qed
qed

lemma regression_label_eval:
  "returned sma_cross (analyze no_ta (LinearRegressionStrategy 25 0.5) rising_bars 3 sma_kwargs)
     = Some SmaBullish"
proof -
  have e: "analyze no_ta (LinearRegressionStrategy 25 0.5) rising_bars 3 sma_kwargs
      = regression_analyze (\<lambda>_. None) 25 0.5 rising_bars 3 sma_kwargs"
    by (simp add: no_ta_def)
  show ?thesis
    unfolding e reg_eval_default by (simp add: returned_def analysis_of_def)
qed

lemma bollinger_label_eval:
  "returned sma_cross (analyze no_ta (BollingerBandStrategy 2 2) rising_bars 3 default_kwargs)
     = Some AboveMiddle"
  by (simp add: returned_def analysis_of_def no_ta_def bollinger_analyze_def Let_def
      default_kwargs_def kwargs_get_def rising_bars_def price_bar_def last_item_def
      series_slope_def tail_def calc_adx_def calc_position_pct_def)

lemma donchian_label_eval:
  "returned sma_cross (analyze no_ta (DonchianChannelStrategy 2) rising_bars 3 default_kwargs)
     = Some InsideChannel"
  by (simp add: returned_def analysis_of_def no_ta_def donchian_analyze_def Let_def
      default_kwargs_def kwargs_get_def rising_bars_def price_bar_def last_item_def
      series_slope_def tail_def calc_adx_def calc_position_pct_def)

lemma trendline_label_eval:
  "returned sma_cross (analyze no_ta (TrendlineStrategy 1) zigzag_bars 9 default_kwargs)
     = Some PatternAscending"
  by (simp add: returned_def analysis_of_def no_ta_def trendline_analyze_def Let_def
      default_kwargs_def kwargs_get_def zigzag_bars_def price_bar_def last_item_def
      tail_def calc_adx_def calc_position_pct_def find_pivots_def is_pivot_def slice_def
      np_max_def np_min_def polyfit_def polyval_def mean_def trendline_pattern_def
      py_round_def round_half_even_def upt_rec power2_eq_square)

theorem sma_cross_field_witness:
  "returned sma_cross (analyze no_ta (LinearRegressionStrategy 25 0.5) rising_bars 3 sma_kwargs)
     = Some SmaBullish
   \<and> sma_cross_rule (sma (kwargs_get (kw_sma_short sma_kwargs) 20) rising_bars)
         (sma (kwargs_get (kw_sma_long sma_kwargs) 60) rising_bars) = SmaBullish
   \<and> returned sma_cross (analyze no_ta (BollingerBandStrategy 2 2) rising_bars 3 default_kwargs)
     = Some AboveMiddle
   \<and> returned sma_cross (analyze no_ta (DonchianChannelStrategy 2) rising_bars 3 default_kwargs)
     = Some InsideChannel
   \<and> returned sma_cross (analyze no_ta (TrendlineStrategy 1) zigzag_bars 9 default_kwargs)
     = Some PatternAscending
   \<and> 0 < pivot_slope (window_highs zigzag_bars 9)
           (pivot_highs (window_highs zigzag_bars 9) (kwargs_get (kw_pivot_window default_kwargs) 1))
   \<and> 0 < pivot_slope (window_lows zigzag_bars 9)
           (pivot_lows (window_lows zigzag_bars 9) (kwargs_get (kw_pivot_window default_kwargs) 1))"
proof -
  have a: "sma_cross_rule (sma (kwargs_get (kw_sma_short sma_kwargs) 20) rising_bars)
         (sma (kwargs_get (kw_sma_long sma_kwargs) 60) rising_bars) = SmaBullish"
    using sma_cross_field [OF regression_label_eval] by simp
  have d: "0 < pivot_slope (window_highs zigzag_bars 9)
           (pivot_highs (window_highs zigzag_bars 9) (kwargs_get (kw_pivot_window default_kwargs) 1))
     \<and> 0 < pivot_slope (window_lows zigzag_bars 9)
           (pivot_lows (window_lows zigzag_bars 9) (kwargs_get (kw_pivot_window default_kwargs) 1))"
    using sma_cross_field [OF trendline_label_eval] by (simp add: Let_def)
  from a d regression_label_eval bollinger_label_eval donchian_label_eval trendline_label_eval
  show ?thesis by blast
qed

section \<open>The classification of the regression variant\<close>






end
